theory Spec2Isabelle
  imports Complex_Main "HOL-Library.Word" "HOL-Library.Multiset" "HOL-Library.Stream"
begin

unbundle bit_operations_syntax

section \<open>Vectors, points and colours\<close>

text \<open>
  The ray tracer is written in Rust over \<^verbatim>\<open>f64\<close>.  Throughout this theory an
  \<^verbatim>\<open>f64\<close> is idealised as a \<^typ>\<open>real\<close>: arithmetic is exact, there is no
  rounding, no NaN and no infinity.  Where the source passes \<^verbatim>\<open>f64::INFINITY\<close> as a
  search bound the bound has a type of its own (\<open>upper\<close> below).  A division whose
  divisor is zero gives an infinity or a NaN in Rust and \<open>0\<close> in HOL, so statements
  that depend on such a quotient carry the hypothesis that the divisor is not zero.

  \<^verbatim>\<open>pub struct Vec3 { pub e: [f64; 3] }\<close>, with \<^verbatim>\<open>Point3\<close> and \<^verbatim>\<open>Color\<close> as aliases.
  The selectors \<open>e0\<close>, \<open>e1\<close>, \<open>e2\<close> are \<^verbatim>\<open>e[0]\<close>, \<^verbatim>\<open>e[1]\<close>, \<^verbatim>\<open>e[2]\<close>, which the
  methods \<^verbatim>\<open>x()\<close>, \<^verbatim>\<open>y()\<close>, \<^verbatim>\<open>z()\<close> return.
\<close>

datatype vec3 = Vec3 (e0: real) (e1: real) (e2: real)

type_synonym point3 = vec3
type_synonym color = vec3

text \<open>
  \<^verbatim>\<open>impl ops::Index<usize> for Vec3\<close>: \<^verbatim>\<open>&self.e[index]\<close>.  The array has three
  entries; an index of 3 or more panics in the source, and no equation is given for it here.
  Every caller passes 0, 1 or 2.
\<close>

fun index :: "vec3 \<Rightarrow> nat \<Rightarrow> real" where
  "index v 0 = e0 v"
| "index v (Suc 0) = e1 v"
| "index v (Suc (Suc 0)) = e2 v"

text \<open>The operator implementations \<^verbatim>\<open>Neg\<close>, \<^verbatim>\<open>Add\<close>, \<^verbatim>\<open>Sub\<close> and \<^verbatim>\<open>Mul\<close> (component-wise).\<close>

instantiation vec3 :: "{uminus, plus, minus, times}"
begin

definition uminus_vec3 :: "vec3 \<Rightarrow> vec3" where
  "uminus_vec3 v = Vec3 (- e0 v) (- e1 v) (- e2 v)"

definition plus_vec3 :: "vec3 \<Rightarrow> vec3 \<Rightarrow> vec3" where
  "plus_vec3 u v = Vec3 (e0 u + e0 v) (e1 u + e1 v) (e2 u + e2 v)"

definition minus_vec3 :: "vec3 \<Rightarrow> vec3 \<Rightarrow> vec3" where
  "minus_vec3 u v = Vec3 (e0 u - e0 v) (e1 u - e1 v) (e2 u - e2 v)"

definition times_vec3 :: "vec3 \<Rightarrow> vec3 \<Rightarrow> vec3" where
  "times_vec3 u v = Vec3 (e0 u * e0 v) (e1 u * e1 v) (e2 u * e2 v)"

instance ..

end

text \<open>\<^verbatim>\<open>impl ops::Mul<Vec3> for f64\<close>: a scalar times a vector.\<close>

definition smul :: "real \<Rightarrow> vec3 \<Rightarrow> vec3" where
  "smul k v = Vec3 (k * e0 v) (k * e1 v) (k * e2 v)"

text \<open>\<^verbatim>\<open>impl ops::Div<f64> for Vec3\<close>: \<^verbatim>\<open>(1.0 / rhs) * self\<close>.\<close>

definition vdiv :: "vec3 \<Rightarrow> real \<Rightarrow> vec3" where
  "vdiv v k = smul (1 / k) v"

definition length_squared :: "vec3 \<Rightarrow> real" where
  "length_squared v = e0 v * e0 v + e1 v * e1 v + e2 v * e2 v"

definition vlength :: "vec3 \<Rightarrow> real" where
  "vlength v = sqrt (length_squared v)"

text \<open>\<^verbatim>\<open>pub fn unit_vector(v: Vec3) -> Vec3 { v / v.length() }\<close>\<close>

definition unit_vector :: "vec3 \<Rightarrow> vec3" where
  "unit_vector v = vdiv v (vlength v)"

text \<open>
  The free function \<^verbatim>\<open>dot\<close> of the \<^verbatim>\<open>Vec3\<close> chapter, as its source has it:
  \<^verbatim>\<open>u.e[0] * v.e[0] + u.e[1] * v.e[1] * u.e[2] * v.e[2]\<close>.
\<close>

definition dot :: "vec3 \<Rightarrow> vec3 \<Rightarrow> real" where
  "dot u v = e0 u * e0 v + e1 u * e1 v * e2 u * e2 v"

text \<open>
  Modelled from the spec: the associated function \<^verbatim>\<open>Vec3::dot\<close>, which the later chapters
  call and whose body is in none of the sources.  The spec lists \<open>dot\<close> among the
  standard vector space operations; this is the Euclidean inner product.
\<close>

definition Vec3_dot :: "vec3 \<Rightarrow> vec3 \<Rightarrow> real" where
  "Vec3_dot u v = e0 u * e0 v + e1 u * e1 v + e2 u * e2 v"

section \<open>Random numbers\<close>

text \<open>
  The source draws its random numbers from \<^verbatim>\<open>thread_rng()\<close> of the \<^verbatim>\<open>rand\<close> crate, a
  global generator outside the repository.  Here the generator is an explicit state, the
  stream of raw draws still to come, which every function that draws takes and returns.
\<close>

type_synonym rng = "nat stream"

text \<open>
  Modelled from the spec: \<^verbatim>\<open>random()\<close> is \<^verbatim>\<open>thread_rng().gen()\<close>, a uniform draw from
  \<open>[0, 1)\<close>; the crate builds it from 53 random bits.
\<close>

definition random :: "rng \<Rightarrow> real \<times> rng" where
  "random g = (real (shd g mod 2 ^ 53) / 2 ^ 53, stl g)"


text \<open>
  Modelled from the spec: \<^verbatim>\<open>random_usize_in_range(min, max)\<close>, whose body is in none of
  the sources: a uniform index from \<open>min\<close> up to, and not including, \<open>max\<close>
  (\<^verbatim>\<open>BvhNode::new\<close> calls it with \<open>(0, 3)\<close> and matches the results 0, 1 and 2).
  Every call in the source has \<open>min < max\<close>.
\<close>

definition random_usize_in_range :: "nat \<Rightarrow> nat \<Rightarrow> rng \<Rightarrow> nat \<times> rng" where
  "random_usize_in_range lo hi g = (lo + shd g mod (hi - lo), stl g)"


section \<open>Rays and hit records\<close>

text \<open>\<^verbatim>\<open>pub struct Ray { pub origin: Point3, pub dir: Vec3, pub time: f64 }\<close>\<close>

record ray =
  origin :: point3
  dir :: vec3
  time :: real

text \<open>\<^verbatim>\<open>Ray::at\<close>: \<^verbatim>\<open>self.origin + t * self.dir\<close> (\<open>at\<close> is taken in HOL).\<close>

definition ray_at :: "ray \<Rightarrow> real \<Rightarrow> point3" where
  "ray_at r t = origin r + smul t (dir r)"

text \<open>
  \<^verbatim>\<open>pub struct HitRecord { p, normal, mat_ptr: Option<Rc<dyn Material>>, t, u, v, front_face }\<close>.
  The fields carry the prefix \<open>rec_\<close> (the source's variable is \<^verbatim>\<open>rec\<close>).  A material
  is a trait object; its type is the parameter \<open>'m\<close>.
\<close>

record 'm hit_record =
  rec_p :: point3
  rec_normal :: vec3
  rec_mat_ptr :: "'m option"
  rec_t :: real
  rec_u :: real
  rec_v :: real
  rec_front_face :: bool

text \<open>\<^verbatim>\<open>HitRecord::set_face_normal\<close>, with the free function \<^verbatim>\<open>dot\<close> as the source calls it.\<close>

definition set_face_normal :: "'m hit_record \<Rightarrow> ray \<Rightarrow> vec3 \<Rightarrow> 'm hit_record" where
  "set_face_normal rec r outward_normal =
     (let front = dot (dir r) outward_normal < 0
      in rec\<lparr>rec_front_face := front,
              rec_normal := (if front then outward_normal else - outward_normal)\<rparr>)"

text \<open>
  The upper end of a search interval: a finite \<^verbatim>\<open>f64\<close> or \<^verbatim>\<open>f64::INFINITY\<close>, which
  \<^verbatim>\<open>ray_color\<close> passes as \<^verbatim>\<open>t_max\<close>.  The three comparisons are the ones the source makes
  between a finite value and a bound.
\<close>

datatype upper = Finite real | INFINITY

fun less_than :: "real \<Rightarrow> upper \<Rightarrow> bool" where
  "less_than a (Finite b) = (a < b)"
| "less_than a INFINITY = True"

fun greater_than :: "real \<Rightarrow> upper \<Rightarrow> bool" where
  "greater_than a (Finite b) = (a > b)"
| "greater_than a INFINITY = False"

fun at_most :: "upper \<Rightarrow> real \<Rightarrow> bool" where
  "at_most (Finite b) a = (b \<le> a)"
| "at_most INFINITY a = False"

section \<open>Axis-aligned bounding boxes\<close>

text \<open>\<^verbatim>\<open>pub struct Aabb { pub minimum: Point3, pub maximum: Point3 }\<close>\<close>

record aabb =
  minimum :: point3
  maximum :: point3

text \<open>
  \<^verbatim>\<open>Aabb::hit\<close>, the optimized version.  The loop body declares
  \<^verbatim>\<open>let t_min = if t0 > t_min { t0 } else { t_min };\<close> and likewise \<^verbatim>\<open>t_max\<close>: each
  \<^verbatim>\<open>let\<close> shadows the parameter until the end of the loop body only, so the next axis
  starts again from the parameters \<^verbatim>\<open>t_min\<close> and \<^verbatim>\<open>t_max\<close> of the function.  The
  recursion over the remaining axes therefore passes the parameters on unchanged.
\<close>

fun Aabb_hit_axes :: "aabb \<Rightarrow> ray \<Rightarrow> real \<Rightarrow> upper \<Rightarrow> nat list \<Rightarrow> bool" where
  "Aabb_hit_axes b r t_min t_max [] = True"
| "Aabb_hit_axes b r t_min t_max (a # axes) =
     (let inv_d = 1 / index (dir r) a;
          t0 = (index (minimum b) a - index (origin r) a) * inv_d;
          t1 = (index (maximum b) a - index (origin r) a) * inv_d;
          t0' = (if inv_d < 0 then t1 else t0);
          t1' = (if inv_d < 0 then t0 else t1);
          t_min' = (if t0' > t_min then t0' else t_min);
          t_max' = (if less_than t1' t_max then Finite t1' else t_max)
      in if at_most t_max' t_min' then False
         else Aabb_hit_axes b r t_min t_max axes)"

definition Aabb_hit :: "aabb \<Rightarrow> ray \<Rightarrow> real \<Rightarrow> upper \<Rightarrow> bool" where
  "Aabb_hit b r t_min t_max = Aabb_hit_axes b r t_min t_max [0, 1, 2]"

text \<open>
  The slab test as the spec words it, for comparison with the source: the interval
  tightened on one axis is the interval the next axis starts from.
\<close>

fun Aabb_hit_spec_axes :: "aabb \<Rightarrow> ray \<Rightarrow> real \<Rightarrow> upper \<Rightarrow> nat list \<Rightarrow> bool" where
  "Aabb_hit_spec_axes b r t_min t_max [] = True"
| "Aabb_hit_spec_axes b r t_min t_max (a # axes) =
     (let inv_d = 1 / index (dir r) a;
          t0 = (index (minimum b) a - index (origin r) a) * inv_d;
          t1 = (index (maximum b) a - index (origin r) a) * inv_d;
          t0' = (if inv_d < 0 then t1 else t0);
          t1' = (if inv_d < 0 then t0 else t1);
          t_min' = (if t0' > t_min then t0' else t_min);
          t_max' = (if less_than t1' t_max then Finite t1' else t_max)
      in if at_most t_max' t_min' then False
         else Aabb_hit_spec_axes b r t_min' t_max' axes)"

definition Aabb_hit_spec :: "aabb \<Rightarrow> ray \<Rightarrow> real \<Rightarrow> upper \<Rightarrow> bool" where
  "Aabb_hit_spec b r t_min t_max = Aabb_hit_spec_axes b r t_min t_max [0, 1, 2]"

text \<open>\<^verbatim>\<open>Aabb::surrounding_box\<close>\<close>

definition surrounding_box :: "aabb \<Rightarrow> aabb \<Rightarrow> aabb" where
  "surrounding_box box0 box1 =
     (let small = Vec3 (min (e0 (minimum box0)) (e0 (minimum box1)))
                       (min (e1 (minimum box0)) (e1 (minimum box1)))
                       (min (e2 (minimum box0)) (e2 (minimum box1)));
          big = Vec3 (max (e0 (maximum box0)) (e0 (maximum box1)))
                     (max (e1 (maximum box0)) (e1 (maximum box1)))
                     (max (e2 (maximum box0)) (e2 (maximum box1)))
      in \<lparr>minimum = small, maximum = big\<rparr>)"

section \<open>Hittable objects\<close>

text \<open>
  \<^verbatim>\<open>f64::atan2(y, x)\<close> of the standard library, for finite arguments: the angle of the
  point \<open>(x, y)\<close>, in \<open>(-\<pi>, \<pi>]\<close>.
\<close>

definition f64_atan2 :: "real \<Rightarrow> real \<Rightarrow> real" where
  "f64_atan2 y x =
     (if x > 0 then arctan (y / x)
      else if x < 0 then (if y \<ge> 0 then arctan (y / x) + pi else arctan (y / x) - pi)
      else if y > 0 then pi / 2
      else if y < 0 then - pi / 2
      else 0)"

text \<open>
  \<^verbatim>\<open>get_sphere_uv(p, &mut u, &mut v)\<close>; the two results are the values it writes to
  \<^verbatim>\<open>*u\<close> and \<^verbatim>\<open>*v\<close>.  The source has \<^verbatim>\<open>let theta = f64::cos(-p.y());\<close>.
\<close>

definition get_sphere_uv :: "point3 \<Rightarrow> real \<times> real" where
  "get_sphere_uv p =
     (let theta = cos (- e1 p);
          phi = f64_atan2 (- e2 p) (e0 p) + pi
      in (phi / (2 * pi), theta / pi))"

text \<open>
  \<^verbatim>\<open>HitRecord::new()\<close>.  The source fills the numeric fields with
  \<^verbatim>\<open>f64::NEG_INFINITY\<close>, placeholders that ``should never be accessed without being
  modified''.  The reals have no such value: the placeholder is a real about which nothing
  is known, so no statement below can depend on it.  \<^verbatim>\<open>mat_ptr\<close> starts as \<^verbatim>\<open>None\<close>.
\<close>

definition NEG_INFINITY :: real where
  "NEG_INFINITY = undefined"

definition HitRecord_new :: "'m hit_record" where
  "HitRecord_new =
     \<lparr>rec_p = Vec3 NEG_INFINITY NEG_INFINITY NEG_INFINITY,
      rec_normal = Vec3 NEG_INFINITY NEG_INFINITY NEG_INFINITY,
      rec_mat_ptr = None,
      rec_t = NEG_INFINITY,
      rec_u = NEG_INFINITY,
      rec_v = NEG_INFINITY,
      rec_front_face = False\<rparr>"

text \<open>
  The trait \<^verbatim>\<open>Hittable\<close> and its implementations.  A \<^verbatim>\<open>Rc<dyn Hittable>\<close> is a value of
  the datatype; the arguments of each constructor are those of the \<^verbatim>\<open>new\<close> function of
  the struct, in its order.
\<close>

datatype 'm hittable =
    Sphere point3 real 'm
  | MovingSphere point3 point3 real real real 'm
  | XyRect real real real real real 'm
  | XzRect real real real real real 'm
  | YzRect real real real real real 'm
  | HittableList "'m hittable list"
  | BvhNode "'m hittable" "'m hittable" aabb

text \<open>
  \<^verbatim>\<open>fn hit(&self, r: &Ray, t_min: f64, t_max: f64, rec: &mut HitRecord) -> bool\<close>: the
  record is passed in and returned with the result.

  \<^verbatim>\<open>Sphere::hit\<close> makes the same six assignments for either root:
\<close>

definition Sphere_hit_record ::
    "point3 \<Rightarrow> real \<Rightarrow> 'm \<Rightarrow> ray \<Rightarrow> real \<Rightarrow> 'm hit_record \<Rightarrow> 'm hit_record" where
  "Sphere_hit_record center radius mat_ptr r temp rec =
     (let rec1 = rec\<lparr>rec_t := temp\<rparr>;
          rec2 = rec1\<lparr>rec_p := ray_at r (rec_t rec1)\<rparr>;
          outward_normal = vdiv (rec_p rec2 - center) radius;
          rec3 = set_face_normal rec2 r outward_normal;
          rec4 = (case get_sphere_uv outward_normal of
                    (a, b) \<Rightarrow> rec3\<lparr>rec_u := a, rec_v := b\<rparr>)
      in rec4\<lparr>rec_mat_ptr := Some mat_ptr\<rparr>)"

definition Sphere_hit ::
    "point3 \<Rightarrow> real \<Rightarrow> 'm \<Rightarrow> ray \<Rightarrow> real \<Rightarrow> upper \<Rightarrow> 'm hit_record \<Rightarrow> bool \<times> 'm hit_record" where
  "Sphere_hit center radius mat_ptr r t_min t_max rec =
     (let oc = origin r - center;
          a = length_squared (dir r);
          half_b = Vec3_dot oc (dir r);
          c = length_squared oc - radius * radius;
          discriminant = half_b * half_b - a * c
      in if discriminant > 0 then
           (let root = sqrt discriminant;
                temp = (- half_b - root) / a
            in if less_than temp t_max \<and> temp > t_min
               then (True, Sphere_hit_record center radius mat_ptr r temp rec)
               else (let temp = (- half_b + root) / a
                     in if less_than temp t_max \<and> temp > t_min
                        then (True, Sphere_hit_record center radius mat_ptr r temp rec)
                        else (False, rec)))
         else (False, rec))"

text \<open>
  \<^verbatim>\<open>MovingSphere::center\<close> and \<^verbatim>\<open>MovingSphere::hit\<close>.  The chapter that has them is
  older than the fields \<^verbatim>\<open>u\<close> and \<^verbatim>\<open>v\<close> of the record, which this \<^verbatim>\<open>hit\<close> does not assign.
\<close>

definition MovingSphere_center :: "point3 \<Rightarrow> point3 \<Rightarrow> real \<Rightarrow> real \<Rightarrow> real \<Rightarrow> point3" where
  "MovingSphere_center center0 center1 time0 time1 tm =
     center0 + smul ((tm - time0) / (time1 - time0)) (center1 - center0)"

definition MovingSphere_hit_record ::
    "point3 \<Rightarrow> real \<Rightarrow> 'm \<Rightarrow> ray \<Rightarrow> real \<Rightarrow> 'm hit_record \<Rightarrow> 'm hit_record" where
  "MovingSphere_hit_record center radius mat_ptr r temp rec =
     (let rec1 = rec\<lparr>rec_t := temp\<rparr>;
          rec2 = rec1\<lparr>rec_p := ray_at r (rec_t rec1)\<rparr>;
          outward_normal = vdiv (rec_p rec2 - center) radius;
          rec3 = set_face_normal rec2 r outward_normal
      in rec3\<lparr>rec_mat_ptr := Some mat_ptr\<rparr>)"

definition MovingSphere_hit ::
    "point3 \<Rightarrow> point3 \<Rightarrow> real \<Rightarrow> real \<Rightarrow> real \<Rightarrow> 'm \<Rightarrow> ray \<Rightarrow> real \<Rightarrow> upper \<Rightarrow> 'm hit_record
      \<Rightarrow> bool \<times> 'm hit_record" where
  "MovingSphere_hit center0 center1 time0 time1 radius mat_ptr r t_min t_max rec =
     (let center = MovingSphere_center center0 center1 time0 time1 (time r);
          oc = origin r - center;
          a = length_squared (dir r);
          half_b = Vec3_dot oc (dir r);
          c = length_squared oc - radius * radius;
          discriminant = half_b * half_b - a * c
      in if discriminant > 0 then
           (let root = sqrt discriminant;
                temp = (- half_b - root) / a
            in if less_than temp t_max \<and> temp > t_min
               then (True, MovingSphere_hit_record center radius mat_ptr r temp rec)
               else (let temp = (- half_b + root) / a
                     in if less_than temp t_max \<and> temp > t_min
                        then (True, MovingSphere_hit_record center radius mat_ptr r temp rec)
                        else (False, rec)))
         else (False, rec))"

text \<open>\<^verbatim>\<open>XyRect::hit\<close>, \<^verbatim>\<open>XzRect::hit\<close> and \<^verbatim>\<open>YzRect::hit\<close>.\<close>

definition XyRect_hit ::
    "real \<Rightarrow> real \<Rightarrow> real \<Rightarrow> real \<Rightarrow> real \<Rightarrow> 'm \<Rightarrow> ray \<Rightarrow> real \<Rightarrow> upper \<Rightarrow> 'm hit_record
      \<Rightarrow> bool \<times> 'm hit_record" where
  "XyRect_hit x0 x1 y0 y1 k mp r t_min t_max rec =
     (let t = (k - e2 (origin r)) / e2 (dir r)
      in if t < t_min \<or> greater_than t t_max then (False, rec)
         else (let x = e0 (origin r) + t * e0 (dir r);
                   y = e1 (origin r) + t * e1 (dir r)
               in if x < x0 \<or> x > x1 \<or> y < y0 \<or> y > y1 then (False, rec)
                  else (let rec1 = rec\<lparr>rec_u := (x - x0) / (x1 - x0)\<rparr>;
                            rec2 = rec1\<lparr>rec_v := (y - y0) / (y1 - y0)\<rparr>;
                            rec3 = rec2\<lparr>rec_t := t\<rparr>;
                            rec4 = set_face_normal rec3 r (Vec3 0 0 1);
                            rec5 = rec4\<lparr>rec_mat_ptr := Some mp\<rparr>
                        in (True, rec5\<lparr>rec_p := ray_at r t\<rparr>))))"

definition XzRect_hit ::
    "real \<Rightarrow> real \<Rightarrow> real \<Rightarrow> real \<Rightarrow> real \<Rightarrow> 'm \<Rightarrow> ray \<Rightarrow> real \<Rightarrow> upper \<Rightarrow> 'm hit_record
      \<Rightarrow> bool \<times> 'm hit_record" where
  "XzRect_hit x0 x1 z0 z1 k mp r t_min t_max rec =
     (let t = (k - e1 (origin r)) / e1 (dir r)
      in if t < t_min \<or> greater_than t t_max then (False, rec)
         else (let x = e0 (origin r) + t * e0 (dir r);
                   z = e2 (origin r) + t * e2 (dir r)
               in if x < x0 \<or> x > x1 \<or> z < z0 \<or> z > z1 then (False, rec)
                  else (let rec1 = rec\<lparr>rec_u := (x - x0) / (x1 - x0)\<rparr>;
                            rec2 = rec1\<lparr>rec_v := (z - z0) / (z1 - z0)\<rparr>;
                            rec3 = rec2\<lparr>rec_t := t\<rparr>;
                            rec4 = set_face_normal rec3 r (Vec3 0 1 0);
                            rec5 = rec4\<lparr>rec_mat_ptr := Some mp\<rparr>
                        in (True, rec5\<lparr>rec_p := ray_at r t\<rparr>))))"

definition YzRect_hit ::
    "real \<Rightarrow> real \<Rightarrow> real \<Rightarrow> real \<Rightarrow> real \<Rightarrow> 'm \<Rightarrow> ray \<Rightarrow> real \<Rightarrow> upper \<Rightarrow> 'm hit_record
      \<Rightarrow> bool \<times> 'm hit_record" where
  "YzRect_hit y0 y1 z0 z1 k mp r t_min t_max rec =
     (let t = (k - e0 (origin r)) / e0 (dir r)
      in if t < t_min \<or> greater_than t t_max then (False, rec)
         else (let y = e1 (origin r) + t * e1 (dir r);
                   z = e2 (origin r) + t * e2 (dir r)
               in if y < y0 \<or> y > y1 \<or> z < z0 \<or> z > z1 then (False, rec)
                  else (let rec1 = rec\<lparr>rec_u := (y - y0) / (y1 - y0)\<rparr>;
                            rec2 = rec1\<lparr>rec_v := (z - z0) / (z1 - z0)\<rparr>;
                            rec3 = rec2\<lparr>rec_t := t\<rparr>;
                            rec4 = set_face_normal rec3 r (Vec3 1 0 0);
                            rec5 = rec4\<lparr>rec_mat_ptr := Some mp\<rparr>
                        in (True, rec5\<lparr>rec_p := ray_at r t\<rparr>))))"

text \<open>
  \<^verbatim>\<open>hit\<close> for every implementation.  \<^verbatim>\<open>HittableList::hit\<close> is the loop \<open>hit_objects\<close>
  over the state \<^verbatim>\<open>(hit_anything, closest_so_far, rec)\<close>; \<^verbatim>\<open>BvhNode::hit\<close> tests its box,
  then its left child, then its right child with \<^verbatim>\<open>t_max\<close> replaced by \<^verbatim>\<open>rec.t\<close> when
  the left child was hit.
\<close>

fun hit :: "'m hittable \<Rightarrow> ray \<Rightarrow> real \<Rightarrow> upper \<Rightarrow> 'm hit_record \<Rightarrow> bool \<times> 'm hit_record"
and hit_objects ::
    "'m hittable list \<Rightarrow> ray \<Rightarrow> real \<Rightarrow> bool \<times> upper \<times> 'm hit_record
      \<Rightarrow> bool \<times> upper \<times> 'm hit_record" where
  "hit (Sphere center radius mat_ptr) r t_min t_max rec =
     Sphere_hit center radius mat_ptr r t_min t_max rec"
| "hit (MovingSphere center0 center1 time0 time1 radius mat_ptr) r t_min t_max rec =
     MovingSphere_hit center0 center1 time0 time1 radius mat_ptr r t_min t_max rec"
| "hit (XyRect x0 x1 y0 y1 k mp) r t_min t_max rec = XyRect_hit x0 x1 y0 y1 k mp r t_min t_max rec"
| "hit (XzRect x0 x1 z0 z1 k mp) r t_min t_max rec = XzRect_hit x0 x1 z0 z1 k mp r t_min t_max rec"
| "hit (YzRect y0 y1 z0 z1 k mp) r t_min t_max rec = YzRect_hit y0 y1 z0 z1 k mp r t_min t_max rec"
| "hit (HittableList objects) r t_min t_max rec =
     (case hit_objects objects r t_min (False, t_max, rec) of
        (hit_anything, closest_so_far, rec') \<Rightarrow> (hit_anything, rec'))"
| "hit (BvhNode left right bounding) r t_min t_max rec =
     (if \<not> Aabb_hit bounding r t_min t_max then (False, rec)
      else (let l = hit left r t_min t_max rec;
                t_max' = (if fst l then Finite (rec_t (snd l)) else t_max);
                rr = hit right r t_min t_max' (snd l)
            in (fst l \<or> fst rr, snd rr)))"
| "hit_objects [] r t_min st = st"
| "hit_objects (object # objects) r t_min st =
     (let temp = hit object r t_min (fst (snd st)) HitRecord_new
      in if fst temp
         then hit_objects objects r t_min (True, Finite (rec_t (snd temp)), snd temp)
         else hit_objects objects r t_min st)"

text \<open>
  \<^verbatim>\<open>fn bounding_box(&self, time0: f64, time1: f64, output_box: &mut Aabb) -> bool\<close>: the
  box is passed in and returned with the result.  \<open>zero_box\<close> is the box
  \<^verbatim>\<open>Aabb::new(Point3::new(0.0, 0.0, 0.0), Point3::new(0.0, 0.0, 0.0))\<close> that every caller
  starts from.  The rectangles are as their sources have them; \<^verbatim>\<open>HittableList::bounding_box\<close>
  is the loop \<open>bounding_box_objects\<close> over \<^verbatim>\<open>first_box\<close> and \<^verbatim>\<open>output_box\<close>.
\<close>

definition zero_box :: aabb where
  "zero_box = \<lparr>minimum = Vec3 0 0 0, maximum = Vec3 0 0 0\<rparr>"

fun bounding_box :: "'m hittable \<Rightarrow> real \<Rightarrow> real \<Rightarrow> aabb \<Rightarrow> bool \<times> aabb"
and bounding_box_objects ::
    "'m hittable list \<Rightarrow> real \<Rightarrow> real \<Rightarrow> bool \<Rightarrow> aabb \<Rightarrow> bool \<times> aabb" where
  "bounding_box (Sphere center radius mat_ptr) time0 time1 output_box =
     (True, \<lparr>minimum = center - Vec3 radius radius radius,
             maximum = center + Vec3 radius radius radius\<rparr>)"
| "bounding_box (MovingSphere center0 center1 tm0 tm1 radius mat_ptr) time0 time1 output_box =
     (let box0 = \<lparr>minimum = MovingSphere_center center0 center1 tm0 tm1 time0
                              - Vec3 radius radius radius,
                  maximum = MovingSphere_center center0 center1 tm0 tm1 time0
                              + Vec3 radius radius radius\<rparr>;
          box1 = \<lparr>minimum = MovingSphere_center center0 center1 tm0 tm1 time1
                              - Vec3 radius radius radius,
                  maximum = MovingSphere_center center0 center1 tm0 tm1 time1
                              + Vec3 radius radius radius\<rparr>
      in (True, surrounding_box box0 box1))"
| "bounding_box (XyRect x0 x1 y0 y1 k mp) time0 time1 output_box =
     (True, \<lparr>minimum = Vec3 x0 y0 (k - 0.0001), maximum = Vec3 x1 y1 (k + 0.0001)\<rparr>)"
| "bounding_box (XzRect x0 x1 z0 z1 k mp) time0 time1 output_box =
     (True, \<lparr>minimum = Vec3 x0 z0 (k - 0.0001), maximum = Vec3 x1 z1 (k + 0.0001)\<rparr>)"
| "bounding_box (YzRect y0 y1 z0 z1 k mp) time0 time1 output_box =
     (True, \<lparr>minimum = Vec3 y0 z0 (k - 0.0001), maximum = Vec3 y1 z1 (k + 0.0001)\<rparr>)"
| "bounding_box (HittableList objects) time0 time1 output_box =
     (if objects = [] then (False, output_box)
      else bounding_box_objects objects time0 time1 True output_box)"
| "bounding_box (BvhNode left right bounding) time0 time1 output_box =
     (True, \<lparr>minimum = minimum bounding, maximum = maximum bounding\<rparr>)"
| "bounding_box_objects [] time0 time1 first_box output_box = (True, output_box)"
| "bounding_box_objects (object # objects) time0 time1 first_box output_box =
     (let temp = bounding_box object time0 time1 zero_box
      in if \<not> fst temp then (False, output_box)
         else bounding_box_objects objects time0 time1 False
                (if first_box then snd temp else surrounding_box output_box (snd temp)))"

section \<open>Building the bounding volume hierarchy\<close>

text \<open>
  \<^verbatim>\<open>std::cmp::Ordering\<close>, and \<^verbatim>\<open>partial_cmp(..).unwrap()\<close> on two \<^verbatim>\<open>f64\<close>: the comparison
  is undefined for a NaN only, which the reals do not have.
\<close>

datatype ordering = Less | Equal | Greater

definition f64_cmp :: "real \<Rightarrow> real \<Rightarrow> ordering" where
  "f64_cmp a b = (if a < b then Less else if a = b then Equal else Greater)"

text \<open>
  \<^verbatim>\<open>box_compare(a, b, axis)\<close>.  The source asks both objects for their boxes at the times
  \<open>(0.0, 0.0)\<close>, the second only when the first has one (\<^verbatim>\<open>||\<close> does not evaluate its
  right operand otherwise); when one has none it prints a line on the standard error
  stream, which is not modelled, and compares what the boxes hold.
\<close>

definition box_compare :: "'m hittable \<Rightarrow> 'm hittable \<Rightarrow> nat \<Rightarrow> ordering" where
  "box_compare a b axis =
     (let ra = bounding_box a 0 0 zero_box;
          box_a = snd ra;
          box_b = (if fst ra then snd (bounding_box b 0 0 zero_box) else zero_box)
      in f64_cmp (index (minimum box_a) axis) (index (minimum box_b) axis))"

text \<open>
  \<^verbatim>\<open>objects[start..end].sort_by(comparator)\<close>.  The sort of the standard library is
  stable; so is this insertion sort, which puts an element before the first one it is not
  greater than.
\<close>

fun insert_by :: "('a \<Rightarrow> 'a \<Rightarrow> ordering) \<Rightarrow> 'a \<Rightarrow> 'a list \<Rightarrow> 'a list" where
  "insert_by cmp a [] = [a]"
| "insert_by cmp a (b # bs) =
     (if cmp a b = Greater then b # insert_by cmp a bs else a # b # bs)"

definition sort_by :: "('a \<Rightarrow> 'a \<Rightarrow> ordering) \<Rightarrow> 'a list \<Rightarrow> 'a list" where
  "sort_by cmp xs = foldr (insert_by cmp) xs []"

text \<open>
  How a call can end without a value: a panic of the source, or a recursion that never
  returns (the model's fuel ran out).
\<close>

datatype error = Panic | OutOfFuel

text \<open>
  The last statements of \<^verbatim>\<open>BvhNode::new\<close>: the boxes of the two children, the right one
  asked for only when the left one has a box, and the node around them.
\<close>

definition BvhNode_of :: "'m hittable \<Rightarrow> 'm hittable \<Rightarrow> real \<Rightarrow> real \<Rightarrow> 'm hittable" where
  "BvhNode_of left right time0 time1 =
     (let rl = bounding_box left time0 time1 zero_box;
          box_left = snd rl;
          box_right = (if fst rl then snd (bounding_box right time0 time1 zero_box) else zero_box)
      in BvhNode left right (surrounding_box box_left box_right))"

text \<open>
  \<^verbatim>\<open>BvhNode::new(objects, start, end, time0, time1)\<close>.  The vector is sorted in place, so it
  is returned with the node, as is the random generator.  The first argument is the fuel:
  the depth of recursion the model may use.  A slice or an index out of range panics; so
  does \<^verbatim>\<open>end - start\<close> below zero (with overflow checks, and without them at the slice).
  \<^verbatim>\<open>object_span / 2.0 as usize\<close> is \<^verbatim>\<open>object_span / 2\<close>.
\<close>

primrec BvhNode_new ::
    "nat \<Rightarrow> 'm hittable list \<Rightarrow> nat \<Rightarrow> nat \<Rightarrow> real \<Rightarrow> real \<Rightarrow> rng
      \<Rightarrow> error + ('m hittable \<times> 'm hittable list \<times> rng)" where
  "BvhNode_new 0 objects start end time0 time1 g = Inl OutOfFuel"
| "BvhNode_new (Suc fuel) objects start end time0 time1 g =
     (case random_usize_in_range 0 3 g of (axis, g1) \<Rightarrow>
      if 3 \<le> axis then Inl Panic
      else if end < start then Inl Panic
      else (let object_span = end - start
            in if object_span = 1 then
                 (if start < length objects
                  then Inr (BvhNode_of (objects ! start) (objects ! start) time0 time1, objects, g1)
                  else Inl Panic)
               else if object_span = 2 then
                 (if start + 1 < length objects
                  then (if box_compare (objects ! start) (objects ! (start + 1)) axis = Less
                        then Inr (BvhNode_of (objects ! start) (objects ! (start + 1)) time0 time1,
                                  objects, g1)
                        else Inr (BvhNode_of (objects ! (start + 1)) (objects ! start) time0 time1,
                                  objects, g1))
                  else Inl Panic)
               else if length objects < end then Inl Panic
               else (let objects1 = take start objects
                            @ sort_by (\<lambda>a b. box_compare a b axis)
                                (take object_span (drop start objects))
                            @ drop end objects;
                         mid = start + object_span div 2
                     in case BvhNode_new fuel objects1 start mid time0 time1 g1 of
                          Inl e \<Rightarrow> Inl e
                        | Inr (left, objects2, g2) \<Rightarrow>
                            (case BvhNode_new fuel objects2 mid end time0 time1 g2 of
                               Inl e \<Rightarrow> Inl e
                             | Inr (right, objects3, g3) \<Rightarrow>
                                 Inr (BvhNode_of left right time0 time1, objects3, g3)))))"

section \<open>Materials and the integrator\<close>

text \<open>
  Modelled from the spec: \<^verbatim>\<open>Vec3::reflect\<close>, whose body is in none of the sources:
  \<open>reflect(v, n) = v - 2 dot(v, n) n\<close>.
\<close>

definition Vec3_reflect :: "vec3 \<Rightarrow> vec3 \<Rightarrow> vec3" where
  "Vec3_reflect v n = v - smul (2 * Vec3_dot v n) n"

text \<open>\<^verbatim>\<open>Vec3::refract(uv, n, etai_over_etat)\<close>\<close>

definition Vec3_refract :: "vec3 \<Rightarrow> vec3 \<Rightarrow> real \<Rightarrow> vec3" where
  "Vec3_refract uv n etai_over_etat =
     (let cos_theta = Vec3_dot (- uv) n;
          r_out_perp = smul etai_over_etat (uv + smul cos_theta n);
          r_out_parallel = smul (- sqrt \<bar>1 - length_squared r_out_perp\<bar>) n
      in r_out_perp + r_out_parallel)"

text \<open>\<^verbatim>\<open>Dielectric::reflectance(cosine, ref_idx)\<close>, Schlick's approximation.\<close>

definition reflectance :: "real \<Rightarrow> real \<Rightarrow> real" where
  "reflectance cosine ref_idx =
     (let r0 = (1 - ref_idx) / (1 + ref_idx);
          r0' = r0 * r0
      in r0' + (1 - r0') * (1 - cosine) ^ 5)"

text \<open>
  \<^verbatim>\<open>Material::scatter(&self, r_in, rec, attenuation: &mut Color, scattered: &mut Ray) -> bool\<close>
  for \<^verbatim>\<open>Dielectric { ir }\<close>: the two out-parameters are passed in and returned with the
  result, and so is the random generator.  \<^verbatim>\<open>||\<close> draws the random number only when its
  left operand is false.
\<close>

definition Dielectric_scatter ::
    "real \<Rightarrow> ray \<Rightarrow> 'm hit_record \<Rightarrow> color \<Rightarrow> ray \<Rightarrow> rng \<Rightarrow> (bool \<times> color \<times> ray) \<times> rng" where
  "Dielectric_scatter ir r_in rec attenuation scattered g =
     (let attenuation' = Vec3 1 1 1;
          refraction_ratio = (if rec_front_face rec then 1 / ir else ir);
          unit_direction = unit_vector (dir r_in);
          cos_theta = min (Vec3_dot (- unit_direction) (rec_normal rec)) 1;
          sin_theta = sqrt (1 - cos_theta * cos_theta)
      in case (if refraction_ratio * sin_theta > 1 then (True, g)
               else (case random g of
                       (d, g') \<Rightarrow> (reflectance cos_theta refraction_ratio > d, g')))
         of (reflects, g') \<Rightarrow>
           (let direction = (if reflects then Vec3_reflect unit_direction (rec_normal rec)
                             else Vec3_refract unit_direction (rec_normal rec) refraction_ratio);
                scattered' = \<lparr>origin = rec_p rec, dir = direction, time = time r_in\<rparr>
            in ((True, attenuation', scattered'), g')))"

text \<open>
  \<^verbatim>\<open>ray_color(r, background, world, depth)\<close>.  The material of a hit is a trait object;
  its two methods are the parameters \<open>scatter\<close> and \<open>emitted\<close>.  \<^verbatim>\<open>depth\<close> is a
  \<^verbatim>\<open>u32\<close>, so \<^verbatim>\<open>depth <= 0\<close> is \<^verbatim>\<open>depth == 0\<close>.  \<^verbatim>\<open>rec.mat_ptr.as_ref().unwrap()\<close>
  panics when the record has no material.
\<close>

primrec ray_color ::
    "('m \<Rightarrow> ray \<Rightarrow> 'm hit_record \<Rightarrow> color \<Rightarrow> ray \<Rightarrow> rng \<Rightarrow> (bool \<times> color \<times> ray) \<times> rng)
      \<Rightarrow> ('m \<Rightarrow> real \<Rightarrow> real \<Rightarrow> point3 \<Rightarrow> color)
      \<Rightarrow> color \<Rightarrow> 'm hittable \<Rightarrow> nat \<Rightarrow> ray \<Rightarrow> rng \<Rightarrow> error + (color \<times> rng)" where
  "ray_color scatter emitted background world 0 r g = Inr (Vec3 0 0 0, g)"
| "ray_color scatter emitted background world (Suc depth) r g =
     (case hit world r 0.001 INFINITY HitRecord_new of
        (False, rec) \<Rightarrow> Inr (background, g)
      | (True, rec) \<Rightarrow>
          (let scattered = \<lparr>origin = Vec3 0 0 0, dir = Vec3 0 0 0, time = 0\<rparr>;
               attenuation = Vec3 0 0 0
           in case rec_mat_ptr rec of
                None \<Rightarrow> Inl Panic
              | Some m \<Rightarrow>
                  (let emit = emitted m (rec_u rec) (rec_v rec) (rec_p rec)
                   in case scatter m r rec attenuation scattered g of
                        ((False, attenuation', scattered'), g') \<Rightarrow> Inr (emit, g')
                      | ((True, attenuation', scattered'), g') \<Rightarrow>
                          (case ray_color scatter emitted background world depth scattered' g' of
                             Inl e \<Rightarrow> Inl e
                           | Inr (c, g'') \<Rightarrow> Inr (emit + attenuation' * c, g'')))))"

section \<open>The image writer\<close>

text \<open>\<^verbatim>\<open>clamp(x, min, max)\<close>\<close>

definition clamp :: "real \<Rightarrow> real \<Rightarrow> real \<Rightarrow> real" where
  "clamp a lo hi = (if a < lo then lo else if a > hi then hi else a)"

text \<open>
  \<^verbatim>\<open>as u32\<close> on an \<^verbatim>\<open>f64\<close>: the fraction is dropped, and a value outside the range of
  the type becomes the nearest end of the range.
\<close>

definition f64_as_u32 :: "real \<Rightarrow> nat" where
  "f64_as_u32 a = (if a \<le> 0 then 0 else if 4294967295 \<le> a then 4294967295 else nat \<lfloor>a\<rfloor>)"

text \<open>How \<^verbatim>\<open>{}\<close> formats a \<^verbatim>\<open>u32\<close>: decimal digits, no sign, no padding.\<close>

fun show_u32 :: "nat \<Rightarrow> string" where
  "show_u32 n = (if n < 10 then [char_of (48 + n)]
                 else show_u32 (n div 10) @ [char_of (48 + n mod 10)])"

declare show_u32.simps [simp del]

text \<open>
  \<^verbatim>\<open>write_color(f, color, samples_per_pixel)\<close>: the result is the text that
  \<^verbatim>\<open>write!\<close> hands to the writer \<^verbatim>\<open>f\<close>.
\<close>

definition write_color :: "color \<Rightarrow> nat \<Rightarrow> string" where
  "write_color color samples_per_pixel =
     (let scale = 1 / real samples_per_pixel;
          r = sqrt (e0 color * scale);
          g = sqrt (e1 color * scale);
          b = sqrt (e2 color * scale)
      in show_u32 (f64_as_u32 (256 * clamp r 0 0.999)) @ '' ''
         @ show_u32 (f64_as_u32 (256 * clamp g 0 0.999)) @ '' ''
         @ show_u32 (f64_as_u32 (256 * clamp b 0 0.999)) @ [CHR 0x0A])"

section \<open>Perlin noise\<close>












section \<open>Vocabulary of the statements\<close>

text \<open>
  What a call of \<^verbatim>\<open>hit\<close> reports: nothing, or the parameter \<^verbatim>\<open>rec.t\<close> of the hit it
  stored.  \<open>hit_t\<close> is the report of a call that starts from a fresh record, as every
  call in the loop of \<^verbatim>\<open>HittableList::hit\<close> does.
\<close>

definition reported_t :: "bool \<times> 'm hit_record \<Rightarrow> real option" where
  "reported_t res = (if fst res then Some (rec_t (snd res)) else None)"

definition hit_t :: "'m hittable \<Rightarrow> ray \<Rightarrow> real \<Rightarrow> upper \<Rightarrow> real option" where
  "hit_t obj r t_min t_max = reported_t (hit obj r t_min t_max HitRecord_new)"

text \<open>The order of the upper ends of search intervals.\<close>

fun upper_le :: "upper \<Rightarrow> upper \<Rightarrow> bool" where
  "upper_le (Finite a) (Finite b) = (a \<le> b)"
| "upper_le INFINITY (Finite b) = False"
| "upper_le hi INFINITY = True"

text \<open>
  An object answers consistently along a ray, from \<open>t_min\<close> on, when: a miss leaves the
  record of the caller as it was; the reported parameter does not depend on the record
  passed in; a reported parameter is not beyond the upper end; a hit stays the hit when
  the upper end is lowered to a value still above it; and a hit found under a lower
  upper end is the hit found under a higher one.
\<close>

definition well_behaved :: "'m hittable \<Rightarrow> ray \<Rightarrow> real \<Rightarrow> bool" where
  "well_behaved obj r t_min \<longleftrightarrow>
     (\<forall>hi rec. \<not> fst (hit obj r t_min hi rec) \<longrightarrow> snd (hit obj r t_min hi rec) = rec)
   \<and> (\<forall>hi rec. reported_t (hit obj r t_min hi rec) = hit_t obj r t_min hi)
   \<and> (\<forall>hi s. hit_t obj r t_min hi = Some s \<longrightarrow> \<not> greater_than s hi)
   \<and> (\<forall>hi hi' s. hit_t obj r t_min hi = Some s \<and> upper_le hi' hi \<and> less_than s hi'
          \<longrightarrow> hit_t obj r t_min hi' = Some s)
   \<and> (\<forall>hi hi' s. hit_t obj r t_min hi' = Some s \<and> upper_le hi' hi
          \<longrightarrow> hit_t obj r t_min hi = Some s)"

text \<open>
  The closest hit of a set of objects, as a report: nothing when no object is hit, and
  otherwise the least of the parameters of the objects that are hit.
\<close>

definition is_closest :: "'m hittable set \<Rightarrow> ray \<Rightarrow> real \<Rightarrow> upper \<Rightarrow> real option \<Rightarrow> bool" where
  "is_closest S r t_min hi res \<longleftrightarrow>
     (case res of
        None \<Rightarrow> \<forall>obj \<in> S. hit_t obj r t_min hi = None
      | Some s \<Rightarrow> (\<exists>obj \<in> S. hit_t obj r t_min hi = Some s)
                 \<and> (\<forall>obj \<in> S. \<forall>s'. hit_t obj r t_min hi = Some s' \<longrightarrow> s \<le> s'))"

text \<open>The state of the loop of \<^verbatim>\<open>HittableList::hit\<close> after the objects of \<open>P\<close>.\<close>

definition scanned ::
    "'m hittable set \<Rightarrow> ray \<Rightarrow> real \<Rightarrow> upper \<Rightarrow> bool \<times> upper \<times> 'm hit_record \<Rightarrow> bool" where
  "scanned P r t_min hi st \<longleftrightarrow>
     (case st of (hit_anything, closest_so_far, rec) \<Rightarrow>
        is_closest P r t_min hi (if hit_anything then Some (rec_t rec) else None)
        \<and> closest_so_far = (if hit_anything then Finite (rec_t rec) else hi)
        \<and> upper_le closest_so_far hi)"

text \<open>
  A tree of \<^verbatim>\<open>BvhNode\<close>s over a set of objects, for one ray: the leaves are the objects,
  and the box of every node is passed by the ray whenever an object below the node is
  hit.
\<close>

inductive bvh_over :: "ray \<Rightarrow> real \<Rightarrow> 'm hittable \<Rightarrow> 'm hittable set \<Rightarrow> bool"
  for r :: ray and t_min :: real where
  leaf: "well_behaved obj r t_min \<Longrightarrow> bvh_over r t_min obj {obj}"
| node: "bvh_over r t_min left A \<Longrightarrow> bvh_over r t_min right B \<Longrightarrow>
         (\<forall>hi. (\<exists>obj \<in> A \<union> B. hit_t obj r t_min hi \<noteq> None) \<longrightarrow> Aabb_hit bounding r t_min hi) \<Longrightarrow>
         bvh_over r t_min (BvhNode left right bounding) (A \<union> B)"

text \<open>
  The two ends of the interval that one iteration of the loop of \<^verbatim>\<open>Aabb::hit\<close> computes
  for an axis, and the condition under which that iteration does not return false.
\<close>

definition slab_enter :: "aabb \<Rightarrow> ray \<Rightarrow> nat \<Rightarrow> real" where
  "slab_enter b r a =
     (let inv_d = 1 / index (dir r) a;
          t0 = (index (minimum b) a - index (origin r) a) * inv_d;
          t1 = (index (maximum b) a - index (origin r) a) * inv_d
      in if inv_d < 0 then t1 else t0)"

definition slab_exit :: "aabb \<Rightarrow> ray \<Rightarrow> nat \<Rightarrow> real" where
  "slab_exit b r a =
     (let inv_d = 1 / index (dir r) a;
          t0 = (index (minimum b) a - index (origin r) a) * inv_d;
          t1 = (index (maximum b) a - index (origin r) a) * inv_d
      in if inv_d < 0 then t0 else t1)"

definition axis_pass :: "aabb \<Rightarrow> ray \<Rightarrow> real \<Rightarrow> upper \<Rightarrow> nat \<Rightarrow> bool" where
  "axis_pass b r t_min t_max a \<longleftrightarrow>
     slab_enter b r a < slab_exit b r a \<and> less_than (slab_enter b r a) t_max
     \<and> t_min < slab_exit b r a \<and> less_than t_min t_max"

text \<open>One box inside another.\<close>

definition inside :: "aabb \<Rightarrow> aabb \<Rightarrow> bool" where
  "inside b c \<longleftrightarrow>
     (\<forall>a < 3. index (minimum c) a \<le> index (minimum b) a
             \<and> index (maximum b) a \<le> index (maximum c) a)"

text \<open>
  The box of an object encloses its hits, for one ray: \<^verbatim>\<open>bounding_box\<close> returns true, and
  \<^verbatim>\<open>Aabb::hit\<close> of the box it returns is true for every interval in which the object is
  hit.  \<open>boxed_over\<close> is the same for the box of a node and the objects below it.
\<close>

definition encloses_hits :: "'m hittable \<Rightarrow> ray \<Rightarrow> real \<Rightarrow> real \<Rightarrow> real \<Rightarrow> bool" where
  "encloses_hits obj r t_min time0 time1 \<longleftrightarrow>
     (\<exists>b. bounding_box obj time0 time1 zero_box = (True, b)
        \<and> (\<forall>hi. hit_t obj r t_min hi \<noteq> None \<longrightarrow> Aabb_hit b r t_min hi))"

definition boxed_over ::
    "ray \<Rightarrow> real \<Rightarrow> real \<Rightarrow> real \<Rightarrow> 'm hittable \<Rightarrow> 'm hittable set \<Rightarrow> bool" where
  "boxed_over r t_min time0 time1 nd S \<longleftrightarrow>
     (\<exists>b. bounding_box nd time0 time1 zero_box = (True, b)
        \<and> (\<forall>hi. (\<exists>obj \<in> S. hit_t obj r t_min hi \<noteq> None) \<longrightarrow> Aabb_hit b r t_min hi))"

text \<open>The slice \<^verbatim>\<open>objects[start..end]\<close>.\<close>

definition slice_of :: "'a list \<Rightarrow> nat \<Rightarrow> nat \<Rightarrow> 'a list" where
  "slice_of xs start end = take (end - start) (drop start xs)"

text \<open>
  The choice \<^verbatim>\<open>Sphere::hit\<close> makes between its two roots, and the discriminant and the
  roots it computes.
\<close>

definition two_roots :: "real \<Rightarrow> upper \<Rightarrow> real \<Rightarrow> real \<Rightarrow> real option" where
  "two_roots t_min hi r1 r2 =
     (if less_than r1 hi \<and> r1 > t_min then Some r1
      else if less_than r2 hi \<and> r2 > t_min then Some r2 else None)"

definition sphere_disc :: "point3 \<Rightarrow> real \<Rightarrow> ray \<Rightarrow> real" where
  "sphere_disc center radius r =
     Vec3_dot (origin r - center) (dir r) * Vec3_dot (origin r - center) (dir r)
       - length_squared (dir r) * (length_squared (origin r - center) - radius * radius)"

definition sphere_root1 :: "point3 \<Rightarrow> real \<Rightarrow> ray \<Rightarrow> real" where
  "sphere_root1 center radius r =
     (- Vec3_dot (origin r - center) (dir r) - sqrt (sphere_disc center radius r))
       / length_squared (dir r)"

definition sphere_root2 :: "point3 \<Rightarrow> real \<Rightarrow> ray \<Rightarrow> real" where
  "sphere_root2 center radius r =
     (- Vec3_dot (origin r - center) (dir r) + sqrt (sphere_disc center radius r))
       / length_squared (dir r)"


section \<open>Basic facts\<close>

lemma index_numeral [simp]: "index v 1 = e1 v" "index v 2 = e2 v"
  by (simp_all add: numeral_2_eq_2)

lemmas vec_defs = plus_vec3_def minus_vec3_def uminus_vec3_def times_vec3_def smul_def vdiv_def
  length_squared_def Vec3_dot_def dot_def ray_at_def


section \<open>Claim C3: the free function dot\<close>

text \<open>
  C3 states that \<open>dot u v\<close> is the Euclidean product
  \<open>u[0]*v[0] + u[1]*v[1] + u[2]*v[2]\<close> for every pair of vectors.  The source multiplies
  where it should add between the second and the third product.  At
  \<open>u = v = (0, 1, 0)\<close> the function returns \<open>0\<close>, and the Euclidean product is \<open>1\<close>.
\<close>

theorem dot_failing_input:
  "dot (Vec3 0 1 0) (Vec3 0 1 0) = 0 \<and>
   e0 (Vec3 0 1 0) * e0 (Vec3 0 1 0) + e1 (Vec3 0 1 0) * e1 (Vec3 0 1 0)
     + e2 (Vec3 0 1 0) * e2 (Vec3 0 1 0) = (1::real)"
  by (simp add: dot_def)

section \<open>Claim C4: the stored normal opposes the ray\<close>


section \<open>Claim C5: the slab test of Aabb::hit\<close>

text \<open>
  C5 states that \<open>Aabb::hit\<close> carries the tightened interval from one axis to the next
  and so returns true exactly when the three slab intervals and \<open>[t_min, t_max]\<close> have a
  common point.  In the source the tightened bounds are \<^verbatim>\<open>let\<close> bindings of the loop
  body, gone at the next axis.  The ray from \<open>(-1, -3, -1)\<close> along \<open>(1, 1, 1)\<close> is inside
  the x and z slabs of the unit box for \<open>t\<close> in \<open>[1, 2]\<close> and inside its y slab for \<open>t\<close>
  in \<open>[3, 4]\<close>: it misses the box.  \<open>Aabb::hit\<close> returns true on \<open>[0, 10]\<close>; the test
  with the running interval returns false.
\<close>

theorem Aabb_hit_failing_input:
  "Aabb_hit \<lparr>minimum = Vec3 0 0 0, maximum = Vec3 1 1 1\<rparr>
      \<lparr>origin = Vec3 (- 1) (- 3) (- 1), dir = Vec3 1 1 1, time = 0\<rparr> 0 (Finite 10) = True
   \<and> Aabb_hit_spec \<lparr>minimum = Vec3 0 0 0, maximum = Vec3 1 1 1\<rparr>
      \<lparr>origin = Vec3 (- 1) (- 3) (- 1), dir = Vec3 1 1 1, time = 0\<rparr> 0 (Finite 10) = False"
  by (simp add: Aabb_hit_def Aabb_hit_spec_def Let_def)

section \<open>Claim C6: the bounding boxes of the rectangles\<close>

lemma XyRect_bounding_box:
  "bounding_box (XyRect x0 x1 y0 y1 k mp) time0 time1 output_box
     = (True, \<lparr>minimum = Vec3 x0 y0 (k - 0.0001), maximum = Vec3 x1 y1 (k + 0.0001)\<rparr>)"
  by simp

text \<open>
  C6 states that each rectangle's box spans its two in-plane bounds on their own axes and
  \<open>[k - 0.0001, k + 0.0001]\<close> on its zero-thickness axis.  \<open>XyRect\<close> does (lemma
  \<open>XyRect_bounding_box\<close>).  \<open>XzRect\<close> and \<open>YzRect\<close> build their boxes with the
  arguments in the positions \<open>XyRect\<close> uses: for the rectangle \<open>x \<in> [0, 1]\<close>,
  \<open>z \<in> [2, 3]\<close> at \<open>y = 5\<close> the box is \<open>[0, 1] \<times> [2, 3] \<times> [4.9999, 5.0001]\<close>, not
  \<open>[0, 1] \<times> [4.9999, 5.0001] \<times> [2, 3]\<close>.
\<close>

theorem XzRect_bounding_box_failing_input:
  "bounding_box (XzRect 0 1 2 3 5 m) time0 time1 output_box
     = (True, \<lparr>minimum = Vec3 0 2 4.9999, maximum = Vec3 1 3 5.0001\<rparr>)
   \<and> bounding_box (XzRect 0 1 2 3 5 m) time0 time1 output_box
     \<noteq> (True, \<lparr>minimum = Vec3 0 4.9999 2, maximum = Vec3 1 5.0001 3\<rparr>)"
  by simp

lemma YzRect_bounding_box_failing_input:
  "bounding_box (YzRect 0 1 2 3 5 m) time0 time1 output_box
     = (True, \<lparr>minimum = Vec3 0 2 4.9999, maximum = Vec3 1 3 5.0001\<rparr>)
   \<and> bounding_box (YzRect 0 1 2 3 5 m) time0 time1 output_box
     \<noteq> (True, \<lparr>minimum = Vec3 4.9999 0 2, maximum = Vec3 5.0001 1 3\<rparr>)"
  by simp

section \<open>Claim C7: texture coordinates of the sphere\<close>

text \<open>
  C7 states that \<open>get_sphere_uv\<close> gives \<open>v = acos(-y) / \<pi>\<close>.  The source takes the
  cosine, not the arc cosine.  At the pole \<open>p = (0, 1, 0)\<close> it gives \<open>v = cos 1 / \<pi>\<close>,
  which is below \<open>1\<close>, where \<open>acos(-1) / \<pi> = 1\<close>.
\<close>

theorem get_sphere_uv_failing_input:
  "snd (get_sphere_uv (Vec3 0 1 0)) = cos 1 / pi
   \<and> arccos (- e1 (Vec3 0 1 0)) / pi = 1
   \<and> cos 1 / pi < (1 :: real)"
proof -
  have "cos (1::real) \<le> 1" by (rule cos_le_one)
  moreover have "(2::real) \<le> pi" by (rule pi_ge_two)
  ultimately have "cos (1::real) < pi" by linarith
  then have "cos 1 / pi < (1 :: real)" by (simp add: field_simps)
  then show ?thesis by (simp add: get_sphere_uv_def Let_def)
qed

section \<open>Claim C9: write_color\<close>

lemma clamp_range: "0 \<le> clamp a 0 0.999 \<and> clamp a 0 0.999 \<le> 0.999"
  by (simp add: clamp_def)

lemma f64_as_u32_floor: "0 \<le> a \<Longrightarrow> a < 256 \<Longrightarrow> f64_as_u32 a = nat \<lfloor>a\<rfloor>"
  by (auto simp: f64_as_u32_def)

lemma channel_byte:
  "f64_as_u32 (256 * clamp a 0 0.999) = nat \<lfloor>256 * clamp a 0 0.999\<rfloor>
   \<and> nat \<lfloor>256 * clamp a 0 0.999\<rfloor> \<le> 255"
proof -
  have r: "0 \<le> clamp a 0 0.999" "clamp a 0 0.999 \<le> 0.999"
    using clamp_range by auto
  then have b: "0 \<le> 256 * clamp a 0 0.999" "256 * clamp a 0 0.999 < 256"
    by auto
  then have "\<lfloor>256 * clamp a 0 0.999\<rfloor> < 256"
    by linarith
  then have "nat \<lfloor>256 * clamp a 0 0.999\<rfloor> \<le> 255"
    by linarith
  with b show ?thesis
    by (simp add: f64_as_u32_floor)
qed

text \<open>
  C9: for every accumulated colour and sample count, \<open>write_color\<close> emits one line
  \<open>R G B\<close> in which each channel is the integer part of
  \<open>256 * clamp(sqrt(channel / n), 0, 0.999)\<close>, and each of the three integers is at most
  255 (they are naturals, so at least 0).
\<close>

theorem write_color_channels:
  "write_color color n =
     show_u32 (nat \<lfloor>256 * clamp (sqrt (e0 color / real n)) 0 0.999\<rfloor>) @ '' '' @
     show_u32 (nat \<lfloor>256 * clamp (sqrt (e1 color / real n)) 0 0.999\<rfloor>) @ '' '' @
     show_u32 (nat \<lfloor>256 * clamp (sqrt (e2 color / real n)) 0 0.999\<rfloor>) @ [CHR 0x0A]
   \<and> nat \<lfloor>256 * clamp (sqrt (e0 color / real n)) 0 0.999\<rfloor> \<le> 255
   \<and> nat \<lfloor>256 * clamp (sqrt (e1 color / real n)) 0 0.999\<rfloor> \<le> 255
   \<and> nat \<lfloor>256 * clamp (sqrt (e2 color / real n)) 0 0.999\<rfloor> \<le> 255"
  unfolding write_color_def Let_def
  by (simp only: channel_byte [THEN conjunct1] channel_byte [THEN conjunct2]
      times_divide_eq_right mult.right_neutral append_assoc simp_thms)

section \<open>Claim C8: Dielectric::scatter\<close>

lemma reflectance_reciprocal:
  assumes "ir \<noteq> 0"
  shows "reflectance c (1 / ir) = reflectance c ir"
proof -
  have n: "1 - 1 / ir = (ir - 1) / ir" and d: "1 + 1 / ir = (ir + 1) / ir"
    using assms by (simp_all add: field_simps)
  have "(1 - 1 / ir) / (1 + 1 / ir) = (ir - 1) / (ir + 1)"
    unfolding n d using assms by simp
  also have "\<dots> = - ((1 - ir) / (1 + ir))"
    by (simp add: add.commute minus_divide_left)
  finally show ?thesis
    by (simp add: reflectance_def Let_def)
qed

lemma reflectance_schlick:
  "reflectance c ir = ((1 - ir) / (1 + ir))\<^sup>2 + (1 - ((1 - ir) / (1 + ir))\<^sup>2) * (1 - c) ^ 5"
  by (simp add: reflectance_def Let_def power2_eq_square)

lemma reflectance_ratio:
  assumes "ir \<noteq> 0"
  shows "reflectance c (if front then 1 / ir else ir)
     = ((1 - ir) / (1 + ir))\<^sup>2 + (1 - ((1 - ir) / (1 + ir))\<^sup>2) * (1 - c) ^ 5"
  using reflectance_reciprocal [OF assms, of c] reflectance_schlick [of c ir] by simp

text \<open>
  C8: for every incoming ray and hit record, \<open>Dielectric::scatter\<close> returns true, sets
  the attenuation to \<open>(1, 1, 1)\<close>, takes \<open>refraction_ratio = 1/ir\<close> on a front face and
  \<open>ir\<close> otherwise, and sends the scattered ray along the reflection of the unit incoming
  direction exactly when \<open>refraction_ratio * sin_theta > 1\<close> or the Schlick reflectance
  \<open>r0 + (1 - r0)(1 - cos_theta)^5\<close>, \<open>r0 = ((1 - ir)/(1 + ir))^2\<close>, exceeds the random
  draw, and along the refraction otherwise.  The random number is drawn only when the
  first test fails.  The source computes \<open>r0\<close> from \<open>refraction_ratio\<close>, which gives the
  same value as \<open>ir\<close> when \<open>ir\<close> is not zero (hypothesis: \<open>1/ir\<close> is a quotient of the
  reals).
\<close>

theorem Dielectric_scatter_always_scatters:
  assumes "ir \<noteq> 0"
  shows "Dielectric_scatter ir r_in rec attenuation scattered g =
     (let refraction_ratio = (if rec_front_face rec then 1 / ir else ir);
          unit_direction = unit_vector (dir r_in);
          cos_theta = min (Vec3_dot (- unit_direction) (rec_normal rec)) 1;
          sin_theta = sqrt (1 - cos_theta * cos_theta);
          r0 = ((1 - ir) / (1 + ir))\<^sup>2;
          schlick = r0 + (1 - r0) * (1 - cos_theta) ^ 5;
          total_internal = (refraction_ratio * sin_theta > 1);
          reflects = (total_internal \<or> schlick > fst (random g))
      in ((True, Vec3 1 1 1,
           \<lparr>origin = rec_p rec,
            dir = (if reflects then Vec3_reflect unit_direction (rec_normal rec)
                   else Vec3_refract unit_direction (rec_normal rec) refraction_ratio),
            time = time r_in\<rparr>),
          (if total_internal then g else snd (random g))))"
  unfolding Dielectric_scatter_def Let_def reflectance_ratio [OF assms]
  by (simp split: prod.splits)

theorem Dielectric_scatter_witness:
  "(3 / 2 :: real) \<noteq> 0 \<and>
   Dielectric_scatter (3 / 2) \<lparr>origin = Vec3 0 0 0, dir = Vec3 0 0 (- 1), time = 0\<rparr>
      \<lparr>rec_p = Vec3 0 0 (- 1), rec_normal = Vec3 0 0 1, rec_mat_ptr = Some (0 :: nat),
       rec_t = 1, rec_u = 0, rec_v = 0, rec_front_face = True\<rparr>
      (Vec3 0 0 0) \<lparr>origin = Vec3 0 0 0, dir = Vec3 0 0 0, time = 0\<rparr> (sconst 0)
   = ((True, Vec3 1 1 1, \<lparr>origin = Vec3 0 0 (- 1), dir = Vec3 0 0 1, time = 0\<rparr>), sconst 0)"
  using Dielectric_scatter_always_scatters [of "3 / 2"
      "\<lparr>origin = Vec3 0 0 0, dir = Vec3 0 0 (- 1), time = 0\<rparr>"
      "\<lparr>rec_p = Vec3 0 0 (- 1), rec_normal = Vec3 0 0 1, rec_mat_ptr = Some (0 :: nat),
       rec_t = 1, rec_u = 0, rec_v = 0, rec_front_face = True\<rparr>"
      "Vec3 0 0 0" "\<lparr>origin = Vec3 0 0 0, dir = Vec3 0 0 0, time = 0\<rparr>" "sconst 0"]
  by (simp add: Let_def unit_vector_def vlength_def vec_defs random_def Vec3_reflect_def
      power2_eq_square)

section \<open>Claim C2: ray_color\<close>

text \<open>
  C2: for every world, background, ray and depth, \<open>ray_color\<close> returns black at depth
  0; the background when the world reports no hit on \<open>(0.001, \<infinity>)\<close>; the emitted colour
  of the hit material alone when its \<open>scatter\<close> returns false; and otherwise
  \<open>emitted + attenuation * ray_color(scattered, background, world, depth - 1)\<close>.
  \<open>scatter\<close> is called with the black colour and the zero ray as its out-parameters.
\<close>

theorem ray_color_cases:
  "ray_color scatter emitted background world 0 r g = Inr (Vec3 0 0 0, g)
   \<and> (hit world r 0.001 INFINITY HitRecord_new = (False, rec)
        \<longrightarrow> ray_color scatter emitted background world (Suc depth) r g = Inr (background, g))
   \<and> (hit world r 0.001 INFINITY HitRecord_new = (True, rec) \<and> rec_mat_ptr rec = Some m
        \<and> scatter m r rec (Vec3 0 0 0) \<lparr>origin = Vec3 0 0 0, dir = Vec3 0 0 0, time = 0\<rparr> g
            = ((False, attenuation, scattered), g')
        \<longrightarrow> ray_color scatter emitted background world (Suc depth) r g
            = Inr (emitted m (rec_u rec) (rec_v rec) (rec_p rec), g'))
   \<and> (hit world r 0.001 INFINITY HitRecord_new = (True, rec) \<and> rec_mat_ptr rec = Some m
        \<and> scatter m r rec (Vec3 0 0 0) \<lparr>origin = Vec3 0 0 0, dir = Vec3 0 0 0, time = 0\<rparr> g
            = ((True, attenuation, scattered), g')
        \<and> ray_color scatter emitted background world depth scattered g' = Inr (c, g'')
        \<longrightarrow> ray_color scatter emitted background world (Suc depth) r g
            = Inr (emitted m (rec_u rec) (rec_v rec) (rec_p rec) + attenuation * c, g''))"
  by (simp add: Let_def)

lemma sqrt_quarter: "sqrt (1 / 4) = 1 / 2"
  by (rule real_sqrt_unique) (simp_all add: power2_eq_square)

lemma sphere_example_hit:
  "hit (Sphere (Vec3 0 0 (- 1)) (1 / 2) (0::nat))
       \<lparr>origin = Vec3 0 0 0, dir = Vec3 0 0 (- 1), time = 0\<rparr> 0.001 INFINITY HitRecord_new
   = (True, \<lparr>rec_p = Vec3 0 0 (- 1 / 2), rec_normal = Vec3 0 0 (- 1), rec_mat_ptr = Some 0,
       rec_t = 1 / 2, rec_u = 1 / 4, rec_v = 1 / pi, rec_front_face = False\<rparr>)"
  by (simp add: Sphere_hit_def Let_def vec_defs sqrt_quarter Sphere_hit_record_def
      set_face_normal_def get_sphere_uv_def f64_atan2_def HitRecord_new_def)

lemma sphere_example_miss:
  "hit (Sphere (Vec3 0 0 (- 1)) (1 / 2) (0::nat))
       \<lparr>origin = Vec3 0 0 (- 1 / 2), dir = Vec3 0 0 1, time = 0\<rparr> 0.001 INFINITY HitRecord_new
   = (False, HitRecord_new)"
  by (simp add: Sphere_hit_def Let_def vec_defs sqrt_quarter)


theorem ray_color_witness:
  "ray_color (\<lambda>m r rec a s g. ((True, Vec3 (1 / 2) (1 / 2) (1 / 2),
                  \<lparr>origin = rec_p rec, dir = Vec3 0 0 1, time = 0\<rparr>), stl g))
       (\<lambda>m u v p. Vec3 4 4 4) (Vec3 1 1 1) (Sphere (Vec3 0 0 (- 1)) (1 / 2) (0::nat))
       (Suc (Suc 0)) \<lparr>origin = Vec3 0 0 0, dir = Vec3 0 0 (- 1), time = 0\<rparr> (sconst 0)
     = Inr (Vec3 (9 / 2) (9 / 2) (9 / 2), sconst 0)
   \<and> ray_color (\<lambda>m r rec a s g. ((False, a, s), g))
       (\<lambda>m u v p. Vec3 4 4 4) (Vec3 1 1 1) (Sphere (Vec3 0 0 (- 1)) (1 / 2) (0::nat))
       (Suc 0) \<lparr>origin = Vec3 0 0 0, dir = Vec3 0 0 (- 1), time = 0\<rparr> (sconst 0)
     = Inr (Vec3 4 4 4, sconst 0)"
proof -
  let ?S = "\<lambda>(m::nat) (r::ray) (rec::nat hit_record) (a::color) (s::ray) (g::rng).
              ((True, Vec3 (1 / 2) (1 / 2) (1 / 2),
                \<lparr>origin = rec_p rec, dir = Vec3 0 0 1, time = 0\<rparr>), stl g)"
  let ?A = "\<lambda>(m::nat) (r::ray) (rec::nat hit_record) (a::color) (s::ray) (g::rng).
              ((False, a, s), g)"
  let ?E = "\<lambda>(m::nat) (u::real) (v::real) (p::point3). Vec3 4 4 4"
  let ?W = "Sphere (Vec3 0 0 (- 1)) (1 / 2) (0::nat)"
  let ?R = "\<lparr>origin = Vec3 0 0 0, dir = Vec3 0 0 (- 1), time = 0\<rparr>"
  let ?R2 = "\<lparr>origin = Vec3 0 0 (- 1 / 2), dir = Vec3 0 0 1, time = 0\<rparr>"
  let ?rec = "\<lparr>rec_p = Vec3 0 0 (- 1 / 2), rec_normal = Vec3 0 0 (- 1), rec_mat_ptr = Some (0::nat),
       rec_t = 1 / 2, rec_u = 1 / 4, rec_v = 1 / pi, rec_front_face = False\<rparr>"
  have miss: "ray_color ?S ?E (Vec3 1 1 1) ?W (Suc 0) ?R2 (sconst 0) = Inr (Vec3 1 1 1, sconst 0)"
    using ray_color_cases [of ?S ?E "Vec3 1 1 1" ?W ?R2 "sconst 0" HitRecord_new 0] sphere_example_miss
    by blast
  have two: "ray_color ?S ?E (Vec3 1 1 1) ?W (Suc (Suc 0)) ?R (sconst 0)
      = Inr (?E 0 (rec_u ?rec) (rec_v ?rec) (rec_p ?rec) + Vec3 (1 / 2) (1 / 2) (1 / 2) * Vec3 1 1 1, sconst 0)"
    using ray_color_cases [of ?S ?E "Vec3 1 1 1" ?W ?R "sconst 0" ?rec "Suc 0" 0
        "Vec3 (1 / 2) (1 / 2) (1 / 2)" ?R2 "sconst 0" "Vec3 1 1 1" "sconst 0"] sphere_example_hit miss
    by simp
  have one: "ray_color ?A ?E (Vec3 1 1 1) ?W (Suc 0) ?R (sconst 0)
      = Inr (?E 0 (rec_u ?rec) (rec_v ?rec) (rec_p ?rec), sconst 0)"
    using ray_color_cases [of ?A ?E "Vec3 1 1 1" ?W ?R "sconst 0" ?rec 0 0
        "Vec3 0 0 0" "\<lparr>origin = Vec3 0 0 0, dir = Vec3 0 0 0, time = 0\<rparr>" "sconst 0"] sphere_example_hit
    by simp
  from two one show ?thesis
    by (simp add: vec_defs)
qed

section \<open>Claim C10: Perlin::noise stays inside its tables\<close>




















section \<open>Claim C1: the hierarchy against the linear scan\<close>

subsection \<open>The linear scan reports the closest hit\<close>

lemma is_closest_unique:
  assumes "is_closest S r t_min hi a" "is_closest S r t_min hi b"
  shows "a = b"
proof (cases a)
  case None
  with assms show ?thesis by (cases b) (auto simp: is_closest_def)
next
  case (Some s)
  with assms(1) obtain obj where o: "obj \<in> S" "hit_t obj r t_min hi = Some s"
    and m: "\<forall>obj \<in> S. \<forall>s'. hit_t obj r t_min hi = Some s' \<longrightarrow> s \<le> s'"
    by (auto simp: is_closest_def)
  show ?thesis
  proof (cases b)
    case None
    with assms(2) o show ?thesis by (auto simp: is_closest_def)
  next
    case (Some s2)
    with assms(2) obtain obj2 where o2: "obj2 \<in> S" "hit_t obj2 r t_min hi = Some s2"
      and m2: "\<forall>obj \<in> S. \<forall>s'. hit_t obj r t_min hi = Some s' \<longrightarrow> s2 \<le> s'"
      by (auto simp: is_closest_def)
    from m o2 have "s \<le> s2" by blast
    moreover from m2 o have "s2 \<le> s" by blast
    ultimately show ?thesis using \<open>a = Some s\<close> Some by simp
  qed
qed

lemma less_than_upper_le: "less_than a hi' \<Longrightarrow> upper_le hi' hi \<Longrightarrow> less_than a hi"
  by (cases hi; cases hi') auto

lemma not_greater_upper_le: "\<not> greater_than a hi' \<Longrightarrow> upper_le hi' hi \<Longrightarrow> \<not> greater_than a hi"
  by (cases hi; cases hi') auto

lemma less_than_trans: "a \<le> b \<Longrightarrow> less_than b hi \<Longrightarrow> less_than a hi"
  by (cases hi) auto

lemma upper_le_refl [simp]: "upper_le hi hi"
  by (cases hi) auto

lemma not_greater_Finite: "\<not> greater_than a hi \<Longrightarrow> upper_le (Finite a) hi"
  by (cases hi) auto

lemma scanned_step:
  assumes wb: "well_behaved obj r t_min"
    and inv: "scanned P r t_min hi st"
  shows "scanned (insert obj P) r t_min hi
           (let temp = hit obj r t_min (fst (snd st)) HitRecord_new
            in if fst temp then (True, Finite (rec_t (snd temp)), snd temp) else st)"
proof -
  obtain h c rec where st: "st = (h, c, rec)" by (cases st)
  from wb have w3: "\<And>hi s. hit_t obj r t_min hi = Some s \<Longrightarrow> \<not> greater_than s hi"
    and w4: "\<And>hi hi' s. hit_t obj r t_min hi = Some s \<Longrightarrow> upper_le hi' hi \<Longrightarrow> less_than s hi'
          \<Longrightarrow> hit_t obj r t_min hi' = Some s"
    and w5: "\<And>hi hi' s. hit_t obj r t_min hi' = Some s \<Longrightarrow> upper_le hi' hi
          \<Longrightarrow> hit_t obj r t_min hi = Some s"
    unfolding well_behaved_def by blast+
  define temp where "temp = hit obj r t_min c HitRecord_new"
  have ht: "hit_t obj r t_min c = (if fst temp then Some (rec_t (snd temp)) else None)"
    by (simp add: hit_t_def reported_t_def temp_def)
  have goal: "(let temp = hit obj r t_min (fst (snd st)) HitRecord_new
            in if fst temp then (True, Finite (rec_t (snd temp)), snd temp) else st)
      = (if fst temp then (True, Finite (rec_t (snd temp)), snd temp) else (h, c, rec))"
    by (simp add: st temp_def Let_def)
  from inv st have cle: "upper_le c hi"
    by (auto simp: scanned_def)
  show ?thesis
  proof (cases h)
    case False
    with inv st have c: "c = hi" and none: "\<forall>x \<in> P. hit_t x r t_min hi = None"
      by (auto simp: scanned_def is_closest_def)
    show ?thesis
    proof (cases "fst temp")
      case True
      with ht c have h1: "hit_t obj r t_min hi = Some (rec_t (snd temp))" by simp
      from w3 [OF h1] have "upper_le (Finite (rec_t (snd temp))) hi"
        by (rule not_greater_Finite)
      with h1 none True show ?thesis
        unfolding goal by (simp add: scanned_def is_closest_def)
    next
      case no: False
      with ht c have "hit_t obj r t_min hi = None" by simp
      with none no False c show ?thesis
        unfolding goal by (simp add: scanned_def is_closest_def)
    qed
  next
    case True
    with inv st have c: "c = Finite (rec_t rec)"
      and ex: "\<exists>x \<in> P. hit_t x r t_min hi = Some (rec_t rec)"
      and mn: "\<forall>x \<in> P. \<forall>s'. hit_t x r t_min hi = Some s' \<longrightarrow> rec_t rec \<le> s'"
      by (auto simp: scanned_def is_closest_def)
    show ?thesis
    proof (cases "fst temp")
      case ok: True
      with ht have h1: "hit_t obj r t_min (Finite (rec_t rec)) = Some (rec_t (snd temp))"
        by (simp add: c)
      from w3 [OF h1] have le: "rec_t (snd temp) \<le> rec_t rec" by simp
      from w5 [OF h1] cle c have h2: "hit_t obj r t_min hi = Some (rec_t (snd temp))" by simp
      from w3 [OF h2] have "upper_le (Finite (rec_t (snd temp))) hi"
        by (rule not_greater_Finite)
      moreover have "\<forall>x \<in> insert obj P. \<forall>s'. hit_t x r t_min hi = Some s' \<longrightarrow> rec_t (snd temp) \<le> s'"
        using mn le h2 by fastforce
      ultimately show ?thesis
        using h2 ok unfolding goal by (simp add: scanned_def is_closest_def)
    next
      case no: False
      with ht have h1: "hit_t obj r t_min (Finite (rec_t rec)) = None"
        by (simp add: c)
      have "rec_t rec \<le> s'" if "hit_t obj r t_min hi = Some s'" for s'
      proof (rule ccontr)
        assume "\<not> rec_t rec \<le> s'"
        then have "less_than s' (Finite (rec_t rec))" by simp
        from w4 [OF that _ this] cle c h1 show False by simp
      qed
      with mn have "\<forall>x \<in> insert obj P. \<forall>s'. hit_t x r t_min hi = Some s' \<longrightarrow> rec_t rec \<le> s'"
        by blast
      with ex no True c cle show ?thesis
        unfolding goal by (simp add: scanned_def is_closest_def)
    qed
  qed
qed

lemma hit_objects_scanned:
  assumes "\<forall>obj \<in> set objects. well_behaved obj r t_min"
    and "scanned P r t_min hi st"
  shows "scanned (P \<union> set objects) r t_min hi (hit_objects objects r t_min st)"
  using assms
proof (induction objects arbitrary: P st)
  case Nil
  then show ?case by simp
next
  case (Cons obj objects)
  let ?st = "(let temp = hit obj r t_min (fst (snd st)) HitRecord_new
            in if fst temp then (True, Finite (rec_t (snd temp)), snd temp) else st)"
  from Cons.prems have "scanned (insert obj P) r t_min hi ?st"
    by (intro scanned_step) auto
  moreover from Cons.prems have "\<forall>x \<in> set objects. well_behaved x r t_min" by simp
  ultimately have "scanned (insert obj P \<union> set objects) r t_min hi (hit_objects objects r t_min ?st)"
    by (rule Cons.IH [rotated])
  moreover have "hit_objects (obj # objects) r t_min st = hit_objects objects r t_min ?st"
    by (simp add: Let_def)
  ultimately show ?case by simp
qed

lemma HittableList_hit_closest:
  assumes "\<forall>obj \<in> set objects. well_behaved obj r t_min"
  shows "is_closest (set objects) r t_min hi (reported_t (hit (HittableList objects) r t_min hi rec))"
proof -
  have "scanned {} r t_min hi (False, hi, rec)"
    by (simp add: scanned_def is_closest_def)
  from hit_objects_scanned [OF assms this]
  show ?thesis
    by (auto simp: scanned_def reported_t_def split: prod.splits)
qed

subsection \<open>The traversal reports the closest hit\<close>

lemma bvh_over_well_behaved:
  "bvh_over r t_min nd S \<Longrightarrow> \<forall>obj \<in> S. well_behaved obj r t_min"
  by (induction rule: bvh_over.induct) auto

lemma is_closest_single:
  "is_closest {obj} r t_min hi (hit_t obj r t_min hi)"
  by (cases "hit_t obj r t_min hi") (auto simp: is_closest_def)

lemma is_closest_None_Un:
  "is_closest A r t_min hi None \<Longrightarrow> is_closest B r t_min hi res \<Longrightarrow> is_closest (A \<union> B) r t_min hi res"
  by (cases res) (auto simp: is_closest_def)

lemma reported_t_None [simp]: "reported_t res = None \<longleftrightarrow> \<not> fst res"
  by (simp add: reported_t_def)

lemma reported_t_Some: "reported_t res = Some s \<longleftrightarrow> fst res \<and> rec_t (snd res) = s"
  by (auto simp: reported_t_def)

lemma node_closest:
  assumes wbA: "\<forall>obj \<in> A. well_behaved obj r t_min"
    and wbB: "\<forall>obj \<in> B. well_behaved obj r t_min"
    and l: "is_closest A r t_min hi (Some sl)"
    and rr: "is_closest B r t_min (Finite sl) resr"
  shows "is_closest (A \<union> B) r t_min hi (case resr of None \<Rightarrow> Some sl | Some sr \<Rightarrow> Some sr)"
proof -
  from l obtain oa where oa: "oa \<in> A" "hit_t oa r t_min hi = Some sl"
    and ma: "\<forall>obj \<in> A. \<forall>s'. hit_t obj r t_min hi = Some s' \<longrightarrow> sl \<le> s'"
    by (auto simp: is_closest_def)
  from wbA oa have "\<not> greater_than sl hi"
    unfolding well_behaved_def by blast
  then have le: "upper_le (Finite sl) hi" by (rule not_greater_Finite)
  have w4: "hit_t obj r t_min (Finite sl) = Some s"
    if "obj \<in> B" "hit_t obj r t_min hi = Some s" "s < sl" for obj s
  proof -
    from wbB that(1) have "well_behaved obj r t_min" by blast
    then have "\<forall>hi hi' s. hit_t obj r t_min hi = Some s \<and> upper_le hi' hi \<and> less_than s hi'
          \<longrightarrow> hit_t obj r t_min hi' = Some s"
      unfolding well_behaved_def by blast
    with that(2,3) le show ?thesis by (metis less_than.simps(1))
  qed
  show ?thesis
  proof (cases resr)
    case None
    with rr have none: "\<forall>obj \<in> B. hit_t obj r t_min (Finite sl) = None"
      by (simp add: is_closest_def)
    have "sl \<le> s'" if "obj \<in> B" "hit_t obj r t_min hi = Some s'" for obj s'
    proof (rule ccontr)
      assume "\<not> sl \<le> s'"
      then have "s' < sl" by simp
      from w4 [OF that this] none that(1) show False by simp
    qed
    with ma oa None show ?thesis
      by (auto simp: is_closest_def)
  next
    case (Some sr)
    with rr obtain ob where ob: "ob \<in> B" "hit_t ob r t_min (Finite sl) = Some sr"
      and mb: "\<forall>obj \<in> B. \<forall>s'. hit_t obj r t_min (Finite sl) = Some s' \<longrightarrow> sr \<le> s'"
      by (auto simp: is_closest_def)
    from wbB ob(1) have wb: "well_behaved ob r t_min" by blast
    from wb ob(2) have "\<not> greater_than sr (Finite sl)"
      unfolding well_behaved_def by blast
    then have srl: "sr \<le> sl" by simp
    from wb have "\<forall>hi hi' s. hit_t ob r t_min hi' = Some s \<and> upper_le hi' hi
          \<longrightarrow> hit_t ob r t_min hi = Some s"
      unfolding well_behaved_def by blast
    with ob(2) le have obhi: "hit_t ob r t_min hi = Some sr" by blast
    have "sr \<le> s'" if "obj \<in> B" "hit_t obj r t_min hi = Some s'" for obj s'
    proof (cases "s' < sl")
      case True
      from w4 [OF that True] mb that(1) show ?thesis by blast
    next
      case False
      with srl show ?thesis by simp
    qed
    moreover have "sr \<le> s'" if "obj \<in> A" "hit_t obj r t_min hi = Some s'" for obj s'
      using ma that srl by fastforce
    ultimately show ?thesis
      using ob(1) obhi Some by (auto simp: is_closest_def)
  qed
qed

lemma bvh_hit_closest:
  assumes "bvh_over r t_min nd S"
  shows "is_closest S r t_min hi (reported_t (hit nd r t_min hi rec))
         \<and> (\<not> fst (hit nd r t_min hi rec) \<longrightarrow> snd (hit nd r t_min hi rec) = rec)"
  using assms
proof (induction arbitrary: hi rec rule: bvh_over.induct)
  case (leaf obj)
  then have "reported_t (hit obj r t_min hi rec) = hit_t obj r t_min hi"
    and "\<not> fst (hit obj r t_min hi rec) \<longrightarrow> snd (hit obj r t_min hi rec) = rec"
    unfolding well_behaved_def by blast+
  then show ?case
    using is_closest_single [of obj r t_min hi] by simp
next
  case (node left A right B bounding)
  show ?case
  proof (cases "Aabb_hit bounding r t_min hi")
    case False
    with node.hyps(3) have "\<forall>obj \<in> A \<union> B. hit_t obj r t_min hi = None" by blast
    with False show ?thesis
      by (simp add: is_closest_def reported_t_def)
  next
    case True
    define l where "l = hit left r t_min hi rec"
    define hi' where "hi' = (if fst l then Finite (rec_t (snd l)) else hi)"
    define rr where "rr = hit right r t_min hi' (snd l)"
    have res: "hit (BvhNode left right bounding) r t_min hi rec = (fst l \<or> fst rr, snd rr)"
      using True by (simp add: l_def hi'_def rr_def Let_def)
    from node.IH(1) [of hi rec] have il: "is_closest A r t_min hi (reported_t l)"
      and ul: "\<not> fst l \<longrightarrow> snd l = rec"
      by (simp_all add: l_def)
    from node.IH(2) [of hi' "snd l"] have ir: "is_closest B r t_min hi' (reported_t rr)"
      and ur: "\<not> fst rr \<longrightarrow> snd rr = snd l"
      by (simp_all add: rr_def)
    show ?thesis
    proof (cases "fst l")
      case False
      then have "hi' = hi" by (simp add: hi'_def)
      with il ir False have "is_closest (A \<union> B) r t_min hi (reported_t rr)"
        by (intro is_closest_None_Un) (simp_all add: reported_t_def)
      with False ul ur show ?thesis
        unfolding res by (auto simp: reported_t_def)
    next
      case hl: True
      then have h: "hi' = Finite (rec_t (snd l))" by (simp add: hi'_def)
      from il hl have l1: "is_closest A r t_min hi (Some (rec_t (snd l)))"
        by (simp add: reported_t_def)
      from ir h have r1: "is_closest B r t_min (Finite (rec_t (snd l))) (reported_t rr)"
        by simp
      from node_closest [OF bvh_over_well_behaved [OF node.hyps(1)]
          bvh_over_well_behaved [OF node.hyps(2)] l1 r1]
      have "is_closest (A \<union> B) r t_min hi
              (case reported_t rr of None \<Rightarrow> Some (rec_t (snd l)) | Some sr \<Rightarrow> Some sr)" .
      moreover have "(case reported_t rr of None \<Rightarrow> Some (rec_t (snd l)) | Some sr \<Rightarrow> Some sr)
          = reported_t (fst l \<or> fst rr, snd rr)"
        using hl ur by (auto simp: reported_t_def)
      ultimately show ?thesis
        unfolding res using hl by simp
    qed
  qed
qed

subsection \<open>Slabs\<close>

lemma Aabb_hit_axes_Cons:
  "Aabb_hit_axes b r t_min t_max (a # axes)
     \<longleftrightarrow> axis_pass b r t_min t_max a \<and> Aabb_hit_axes b r t_min t_max axes"
  by (cases t_max) (auto simp: axis_pass_def slab_enter_def slab_exit_def Let_def)

lemma Aabb_hit_iff:
  "Aabb_hit b r t_min t_max
     \<longleftrightarrow> axis_pass b r t_min t_max 0 \<and> axis_pass b r t_min t_max 1 \<and> axis_pass b r t_min t_max 2"
  unfolding Aabb_hit_def Aabb_hit_axes_Cons by simp

lemma slab_mono:
  assumes "inside b c" "a < 3"
  shows "slab_enter c r a \<le> slab_enter b r a" "slab_exit b r a \<le> slab_exit c r a"
proof -
  from assms have m: "index (minimum c) a \<le> index (minimum b) a"
    "index (maximum b) a \<le> index (maximum c) a"
    by (auto simp: inside_def)
  show "slab_enter c r a \<le> slab_enter b r a"
    using m by (auto simp: slab_enter_def Let_def intro: divide_right_mono divide_right_mono_neg)
  show "slab_exit b r a \<le> slab_exit c r a"
    using m by (auto simp: slab_exit_def Let_def intro: divide_right_mono divide_right_mono_neg)
qed

lemma axis_pass_mono:
  assumes "inside b c" "a < 3" "axis_pass b r t_min t_max a"
  shows "axis_pass c r t_min t_max a"
proof -
  note m = slab_mono [OF assms(1,2), of r]
  from assms(3) m show ?thesis
    unfolding axis_pass_def by (auto intro: less_than_trans)
qed

lemma Aabb_hit_mono:
  assumes "inside b c" "Aabb_hit b r t_min t_max"
  shows "Aabb_hit c r t_min t_max"
  using assms unfolding Aabb_hit_iff by (auto intro: axis_pass_mono)

lemma inside_surrounding_box:
  "inside b (surrounding_box b c)" "inside c (surrounding_box b c)"
  by (auto simp: inside_def surrounding_box_def Let_def less_Suc_eq numeral_3_eq_3)

subsection \<open>The boxes of the nodes\<close>

lemma boxed_over_leaf:
  "encloses_hits obj r t_min time0 time1 \<Longrightarrow> boxed_over r t_min time0 time1 obj {obj}"
  by (auto simp: encloses_hits_def boxed_over_def)

lemma aabb_rebuild [simp]: "\<lparr>minimum = minimum b, maximum = maximum b\<rparr> = (b :: aabb)"
  by (cases b) simp

lemma BvhNode_of_over:
  assumes l: "bvh_over r t_min left A" "boxed_over r t_min time0 time1 left A"
    and rr: "bvh_over r t_min right B" "boxed_over r t_min time0 time1 right B"
  shows "bvh_over r t_min (BvhNode_of left right time0 time1) (A \<union> B)
       \<and> boxed_over r t_min time0 time1 (BvhNode_of left right time0 time1) (A \<union> B)"
proof -
  from l(2) obtain bl where bl: "bounding_box left time0 time1 zero_box = (True, bl)"
    "\<forall>hi. (\<exists>obj \<in> A. hit_t obj r t_min hi \<noteq> None) \<longrightarrow> Aabb_hit bl r t_min hi"
    unfolding boxed_over_def by blast
  from rr(2) obtain br where br: "bounding_box right time0 time1 zero_box = (True, br)"
    "\<forall>hi. (\<exists>obj \<in> B. hit_t obj r t_min hi \<noteq> None) \<longrightarrow> Aabb_hit br r t_min hi"
    unfolding boxed_over_def by blast
  have nd: "BvhNode_of left right time0 time1 = BvhNode left right (surrounding_box bl br)"
    by (simp add: BvhNode_of_def Let_def bl(1) br(1))
  have cons: "\<forall>hi. (\<exists>obj \<in> A \<union> B. hit_t obj r t_min hi \<noteq> None)
                 \<longrightarrow> Aabb_hit (surrounding_box bl br) r t_min hi"
    using bl(2) br(2) Aabb_hit_mono [OF inside_surrounding_box(1) [of bl br]]
      Aabb_hit_mono [OF inside_surrounding_box(2) [of br bl]]
    by (metis Un_iff)
  have "bvh_over r t_min (BvhNode left right (surrounding_box bl br)) (A \<union> B)"
    using l(1) rr(1) cons by (rule bvh_over.node)
  moreover have "boxed_over r t_min time0 time1 (BvhNode left right (surrounding_box bl br)) (A \<union> B)"
    unfolding boxed_over_def using cons by simp
  ultimately show ?thesis by (simp add: nd)
qed

subsection \<open>The sort and the slices\<close>

lemma set_insert_by [simp]: "set (insert_by cmp a xs) = insert a (set xs)"
  by (induction xs) auto

lemma length_insert_by [simp]: "length (insert_by cmp a xs) = Suc (length xs)"
  by (induction xs) auto

lemma set_sort_by [simp]: "set (sort_by cmp xs) = set xs"
  by (induction xs) (auto simp: sort_by_def)

lemma length_sort_by [simp]: "length (sort_by cmp xs) = length xs"
  by (induction xs) (auto simp: sort_by_def)

lemma slice_sandwich:
  assumes "length pre = start" "length ms = end - start" "start \<le> m" "m \<le> end"
  shows "take start (pre @ ms @ post) = pre"
    and "drop end (pre @ ms @ post) = post"
    and "slice_of (pre @ ms @ post) start m = take (m - start) ms"
    and "slice_of (pre @ ms @ post) m end = drop (m - start) ms"
  using assms by (simp_all add: slice_of_def)

subsection \<open>The construction\<close>

lemma random_axis: "fst (random_usize_in_range 0 3 g) < 3"
  by (simp add: random_usize_in_range_def)

lemma slice_one: "start < length xs \<Longrightarrow> slice_of xs start (Suc start) = [xs ! start]"
  by (simp add: slice_of_def take_Suc_conv_app_nth [of 0] hd_drop_conv_nth take_Suc)

lemma slice_two:
  "Suc start < length xs \<Longrightarrow> slice_of xs start (Suc (Suc start)) = [xs ! start, xs ! Suc start]"
proof -
  assume a: "Suc start < length xs"
  then have "drop start xs = xs ! start # xs ! Suc start # drop (Suc (Suc start)) xs"
    by (simp add: Cons_nth_drop_Suc Suc_lessD)
  then show ?thesis by (simp add: slice_of_def)
qed

lemma length_slice: "e \<le> length xs \<Longrightarrow> length (slice_of xs start e) = e - start"
  by (simp add: slice_of_def)

lemma BvhNode_new_over:
  assumes "start < e" "e \<le> length objects" "e - start \<le> fuel"
    and "\<forall>obj \<in> set (slice_of objects start e).
           well_behaved obj r t_min \<and> encloses_hits obj r t_min time0 time1"
  shows "\<exists>nd objects' g'. BvhNode_new fuel objects start e time0 time1 g = Inr (nd, objects', g')
     \<and> length objects' = length objects
     \<and> take start objects' = take start objects \<and> drop e objects' = drop e objects
     \<and> bvh_over r t_min nd (set (slice_of objects start e))
     \<and> boxed_over r t_min time0 time1 nd (set (slice_of objects start e))"
  using assms
proof (induction fuel arbitrary: objects start e g)
  case 0
  then show ?case by simp
next
  case (Suc fuel)
  obtain axis g1 where rg: "random_usize_in_range 0 3 g = (axis, g1)"
    by (cases "random_usize_in_range 0 3 g")
  with random_axis [of g] have ax: "axis < 3" by simp
  have leafs: "bvh_over r t_min obj {obj} \<and> boxed_over r t_min time0 time1 obj {obj}"
    if "obj \<in> set (slice_of objects start e)" for obj
    using Suc.prems(4) that by (auto intro: bvh_over.leaf boxed_over_leaf)
  consider (one) "e - start = 1" | (two) "e - start = 2" | (more) "3 \<le> e - start"
    using Suc.prems(1) by linarith
  then show ?case
  proof cases
    case one
    then have e: "e = Suc start" by simp
    have lt: "start < length objects" using Suc.prems(1,2) by simp
    have sl: "slice_of objects start e = [objects ! start]"
      unfolding e using lt by (rule slice_one)
    have new: "BvhNode_new (Suc fuel) objects start e time0 time1 g
        = Inr (BvhNode_of (objects ! start) (objects ! start) time0 time1, objects, g1)"
      using ax lt by (simp add: rg e)
    from leafs [of "objects ! start"] sl
    have "bvh_over r t_min (objects ! start) {objects ! start}"
      "boxed_over r t_min time0 time1 (objects ! start) {objects ! start}" by simp_all
    from BvhNode_of_over [OF this this]
    show ?thesis unfolding new sl by simp
  next
    case two
    then have e: "e = Suc (Suc start)" by simp
    have lt: "Suc start < length objects" using Suc.prems(2) e by simp
    have sl: "slice_of objects start e = [objects ! start, objects ! Suc start]"
      unfolding e using lt by (rule slice_two)
    let ?a = "objects ! start" and ?b = "objects ! Suc start"
    from leafs [of ?a] leafs [of ?b] sl
    have a: "bvh_over r t_min ?a {?a}" "boxed_over r t_min time0 time1 ?a {?a}"
      and b: "bvh_over r t_min ?b {?b}" "boxed_over r t_min time0 time1 ?b {?b}"
      by simp_all
    have un: "set (slice_of objects start e) = {?a} \<union> {?b}" "set (slice_of objects start e) = {?b} \<union> {?a}"
      unfolding sl by auto
    show ?thesis
    proof (cases "box_compare ?a ?b axis = Less")
      case True
      then have new: "BvhNode_new (Suc fuel) objects start e time0 time1 g
          = Inr (BvhNode_of ?a ?b time0 time1, objects, g1)"
        using ax lt by (simp add: rg e)
      from BvhNode_of_over [OF a b] show ?thesis
        unfolding new un(1) by simp
    next
      case False
      then have new: "BvhNode_new (Suc fuel) objects start e time0 time1 g
          = Inr (BvhNode_of ?b ?a time0 time1, objects, g1)"
        using ax lt by (simp add: rg e)
      from BvhNode_of_over [OF b a] show ?thesis
        unfolding new un(2) by simp
    qed
  next
    case more
    define span where "span = e - start"
    define ordered where "ordered = sort_by (\<lambda>a b. box_compare a b axis) (take span (drop start objects))"
    define objects1 where "objects1 = take start objects @ ordered @ drop e objects"
    define mid where "mid = start + span div 2"
    have sp: "3 \<le> span" using more by (simp add: span_def)
    have se: "start \<le> e" "e = start + span" using Suc.prems(1) by (simp_all add: span_def)
    have ls: "length ordered = span"
      using Suc.prems(2) se by (simp add: ordered_def)
    have lp: "length (take start objects) = start"
      using Suc.prems(1,2) by simp
    have set_ordered: "set ordered = set (slice_of objects start e)"
      by (simp add: ordered_def slice_of_def span_def)
    have len1: "length objects1 = length objects"
      using Suc.prems(2) se ls by (simp add: objects1_def)
    have m: "start < mid" "mid < e" "start \<le> mid" "mid \<le> e"
      using sp se by (simp_all add: mid_def) 
    have ls': "length ordered = e - start" using ls by (simp add: span_def)
    note sw = slice_sandwich [OF lp ls', of _ "drop e objects", folded objects1_def]
    have sl_l: "slice_of objects1 start mid = take (mid - start) ordered"
      using m by (intro sw(3)) simp_all
    have sl_r: "slice_of objects1 mid e = drop (mid - start) ordered"
      using m by (intro sw(4)) simp_all
    have tk1: "take start objects1 = take start objects"
      using sw(1) [of start] se by simp
    have dr1: "drop e objects1 = drop e objects"
      using sw(2) [of start] se by simp
    have fuel_l: "mid - start \<le> fuel" and fuel_r: "e - mid \<le> fuel"
      using Suc.prems(3) sp se by (simp_all add: mid_def)
    have hyp_l: "\<forall>obj \<in> set (slice_of objects1 start mid).
           well_behaved obj r t_min \<and> encloses_hits obj r t_min time0 time1"
      using Suc.prems(4) unfolding sl_l set_ordered [symmetric] by (auto dest: in_set_takeD)
    from Suc.IH [OF m(1) _ fuel_l hyp_l, of g1] m(2) Suc.prems(2) len1
    obtain left objects2 g2 where
      L: "BvhNode_new fuel objects1 start mid time0 time1 g1 = Inr (left, objects2, g2)"
        "length objects2 = length objects1"
        "take start objects2 = take start objects1" "drop mid objects2 = drop mid objects1"
        "bvh_over r t_min left (set (slice_of objects1 start mid))"
        "boxed_over r t_min time0 time1 left (set (slice_of objects1 start mid))"
      by auto
    have sl_r2: "slice_of objects2 mid e = slice_of objects1 mid e"
      by (simp add: slice_of_def L(4))
    have hyp_r: "\<forall>obj \<in> set (slice_of objects2 mid e).
           well_behaved obj r t_min \<and> encloses_hits obj r t_min time0 time1"
      using Suc.prems(4) unfolding sl_r2 sl_r set_ordered [symmetric] by (auto dest: in_set_dropD)
    from Suc.IH [OF m(2) _ fuel_r hyp_r, of g2] Suc.prems(2) len1 L(2)
    obtain right objects3 g3 where
      R: "BvhNode_new fuel objects2 mid e time0 time1 g2 = Inr (right, objects3, g3)"
        "length objects3 = length objects2"
        "take mid objects3 = take mid objects2" "drop e objects3 = drop e objects2"
        "bvh_over r t_min right (set (slice_of objects2 mid e))"
        "boxed_over r t_min time0 time1 right (set (slice_of objects2 mid e))"
      by auto
    have new: "BvhNode_new (Suc fuel) objects start e time0 time1 g
        = Inr (BvhNode_of left right time0 time1, objects3, g3)"
      using ax sp Suc.prems(1,2) L(1) R(1)
      by (simp add: rg Let_def span_def [symmetric] ordered_def [symmetric]
          objects1_def [symmetric] mid_def [symmetric])
    have un: "set (slice_of objects1 start mid) \<union> set (slice_of objects2 mid e) = set (slice_of objects start e)"
      unfolding sl_r2 sl_l sl_r set_ordered [symmetric]
      by (metis append_take_drop_id set_append)
    have tk3: "take start objects3 = take start objects"
    proof -
      have "take start objects3 = take start (take mid objects3)"
        using m(3) by (simp add: min_def)
      also have "\<dots> = take start (take mid objects2)" by (simp only: R(3))
      also have "\<dots> = take start objects2" using m(3) by (simp add: min_def)
      finally show ?thesis by (simp add: L(3) tk1)
    qed
    have dr3: "drop e objects3 = drop e objects"
    proof -
      have "drop e objects2 = drop (e - mid) (drop mid objects2)"
        using m(4) by simp
      also have "\<dots> = drop (e - mid) (drop mid objects1)" by (simp only: L(4))
      also have "\<dots> = drop e objects1" using m(4) by simp
      finally show ?thesis by (simp add: R(4) dr1)
    qed
    from BvhNode_of_over [OF L(5,6) R(5,6)]
    show ?thesis
      unfolding new un using R(2) L(2) len1 tk3 dr3 by simp
  qed
qed

subsection \<open>Spheres answer consistently\<close>

lemma two_roots_bounds:
  "two_roots t_min hi r1 r2 = Some s \<Longrightarrow> less_than s hi \<and> t_min < s \<and> (s = r1 \<or> s = r2)"
  by (auto simp: two_roots_def split: if_splits)

lemma less_than_not_greater: "less_than s hi \<Longrightarrow> \<not> greater_than s hi"
  by (cases hi) auto

lemma two_roots_tighten:
  assumes "r1 \<le> r2" "two_roots t_min hi r1 r2 = Some s" "upper_le hi' hi" "less_than s hi'"
  shows "two_roots t_min hi' r1 r2 = Some s"
  using assms by (auto simp: two_roots_def split: if_splits intro: less_than_trans)

lemma two_roots_widen:
  assumes "r1 \<le> r2" "two_roots t_min hi' r1 r2 = Some s" "upper_le hi' hi"
  shows "two_roots t_min hi r1 r2 = Some s"
  using assms
  by (auto simp: two_roots_def split: if_splits intro: less_than_trans less_than_upper_le)

lemma rec_t_Sphere_hit_record [simp]:
  "rec_t (Sphere_hit_record center radius mat_ptr r temp rec) = temp"
  by (simp add: Sphere_hit_record_def Let_def set_face_normal_def split: prod.splits)

lemma Sphere_hit_t:
  "reported_t (Sphere_hit center radius mat_ptr r t_min hi rec) =
     (if sphere_disc center radius r > 0
      then two_roots t_min hi (sphere_root1 center radius r) (sphere_root2 center radius r)
      else None)"
proof -
  define d where "d = sphere_disc center radius r"
  define r1 where "r1 = sphere_root1 center radius r"
  define r2 where "r2 = sphere_root2 center radius r"
  have "Sphere_hit center radius mat_ptr r t_min hi rec =
     (if d > 0 then
        if less_than r1 hi \<and> r1 > t_min
        then (True, Sphere_hit_record center radius mat_ptr r r1 rec)
        else if less_than r2 hi \<and> r2 > t_min
        then (True, Sphere_hit_record center radius mat_ptr r r2 rec)
        else (False, rec)
      else (False, rec))"
    unfolding Sphere_hit_def Let_def d_def r1_def r2_def sphere_disc_def
      sphere_root1_def sphere_root2_def ..
  then show ?thesis
    unfolding d_def [symmetric] r1_def [symmetric] r2_def [symmetric] two_roots_def
    by (auto simp: reported_t_def)
qed

lemma length_squared_nonneg: "0 \<le> length_squared v"
  by (cases v) (simp add: length_squared_def)

lemma sphere_root_le:
  "0 < sphere_disc center radius r \<Longrightarrow> sphere_root1 center radius r \<le> sphere_root2 center radius r"
  unfolding sphere_root1_def sphere_root2_def
  by (rule divide_right_mono) (simp_all add: length_squared_nonneg)

lemma Sphere_well_behaved: "well_behaved (Sphere center radius mat_ptr) r t_min"
proof -
  let ?obj = "Sphere center radius mat_ptr"
  have h: "hit_t ?obj r t_min hi =
     (if sphere_disc center radius r > 0
      then two_roots t_min hi (sphere_root1 center radius r) (sphere_root2 center radius r)
      else None)" for hi
    by (simp add: hit_t_def Sphere_hit_t)
  have w1: "\<not> fst (hit ?obj r t_min hi rec) \<longrightarrow> snd (hit ?obj r t_min hi rec) = rec"
    for hi and rec :: "'a hit_record"
    by (simp add: Sphere_hit_def Let_def)
  have w2: "reported_t (hit ?obj r t_min hi rec) = hit_t ?obj r t_min hi"
    for hi and rec :: "'a hit_record"
    by (simp add: hit_t_def Sphere_hit_t)
  have w3: "hit_t ?obj r t_min hi = Some s \<longrightarrow> \<not> greater_than s hi" for hi s
    unfolding h by (auto split: if_splits dest: two_roots_bounds less_than_not_greater)
  have w4: "hit_t ?obj r t_min hi = Some s \<and> upper_le hi' hi \<and> less_than s hi'
          \<longrightarrow> hit_t ?obj r t_min hi' = Some s" for hi hi' s
    unfolding h by (auto split: if_splits intro: two_roots_tighten [OF sphere_root_le])
  have w5: "hit_t ?obj r t_min hi' = Some s \<and> upper_le hi' hi
          \<longrightarrow> hit_t ?obj r t_min hi = Some s" for hi hi' s
    unfolding h by (auto split: if_splits intro: two_roots_widen [OF sphere_root_le])
  show ?thesis
    unfolding well_behaved_def using w1 w2 w3 w4 w5 by blast
qed

subsection \<open>The box of a sphere of positive radius\<close>

lemma axis_pass_point:
  assumes d: "index (dir r) a \<noteq> 0"
    and w: "index (minimum b) a < index (maximum b) a"
    and lo: "index (minimum b) a \<le> index (origin r) a + s * index (dir r) a"
    and up: "index (origin r) a + s * index (dir r) a \<le> index (maximum b) a"
    and s: "t_min < s" "less_than s hi"
  shows "axis_pass b r t_min hi a"
proof -
  define dd where "dd = index (dir r) a"
  define oo where "oo = index (origin r) a"
  define mn where "mn = index (minimum b) a"
  define mx where "mx = index (maximum b) a"
  note defs = dd_def [symmetric] oo_def [symmetric] mn_def [symmetric] mx_def [symmetric]
  have lt: "less_than t_min hi" using s by (cases hi) auto
  show ?thesis
  proof (cases "dd > 0")
    case True
    then have e: "slab_enter b r a = (mn - oo) / dd" "slab_exit b r a = (mx - oo) / dd"
      by (simp_all add: slab_enter_def slab_exit_def Let_def defs)
    have "(mn - oo) / dd \<le> s" "s \<le> (mx - oo) / dd" "(mn - oo) / dd < (mx - oo) / dd"
      using True lo up w unfolding defs by (simp_all add: field_simps)
    then show ?thesis
      unfolding axis_pass_def e using s lt by (auto intro: less_than_trans)
  next
    case False
    with d have neg: "dd < 0" by (simp add: dd_def)
    then have e: "slab_enter b r a = (mx - oo) / dd" "slab_exit b r a = (mn - oo) / dd"
      by (simp_all add: slab_enter_def slab_exit_def Let_def defs)
    have "(mx - oo) / dd \<le> s" "s \<le> (mn - oo) / dd" "(mx - oo) / dd < (mn - oo) / dd"
      using neg lo up w unfolding defs by (simp_all add: field_simps)
    then show ?thesis
      unfolding axis_pass_def e using s lt by (auto intro: less_than_trans)
  qed
qed

lemma root_on_surface:
  fixes a h c s q :: real
  assumes "a > 0" "q * q = h * h - a * c" "s = (- h - q) / a \<or> s = (- h + q) / a"
  shows "a * s * s + 2 * h * s + c = 0"
proof -
  from assms(1,3) have "a * s + h = - q \<or> a * s + h = q"
    by (auto simp: field_simps)
  then have "(a * s + h) * (a * s + h) = q * q" by auto
  with assms(2) have "a * (a * s * s + 2 * h * s + c) = 0"
    by (simp add: algebra_simps)
  with assms(1) show ?thesis by simp
qed

lemma square_sum_bound:
  fixes x y z rad :: real
  assumes "x * x + y * y + z * z = rad * rad" "0 < rad"
  shows "- rad \<le> x \<and> x \<le> rad"
proof -
  have "x * x \<le> rad * rad"
    using assms(1) [symmetric] by (simp add: add_nonneg_nonneg)
  then have "\<bar>x\<bar> \<le> \<bar>rad\<bar>"
    by (simp add: abs_le_square_iff power2_eq_square)
  with assms(2) show ?thesis by auto
qed

lemma hit_t_Sphere:
  "hit_t (Sphere center radius mat_ptr) r t_min hi =
     (if sphere_disc center radius r > 0
      then two_roots t_min hi (sphere_root1 center radius r) (sphere_root2 center radius r)
      else None)"
  by (simp add: hit_t_def Sphere_hit_t)

lemma Sphere_hit_on_surface:
  assumes "hit_t (Sphere center radius mat_ptr) r t_min hi = Some s" "e0 (dir r) \<noteq> 0"
  shows "length_squared (ray_at r s - center) = radius * radius"
proof -
  define a where "a = length_squared (dir r)"
  define h where "h = Vec3_dot (origin r - center) (dir r)"
  define c where "c = length_squared (origin r - center) - radius * radius"
  define q where "q = sqrt (sphere_disc center radius r)"
  from assms(1) have d: "sphere_disc center radius r > 0"
    and t: "two_roots t_min hi (sphere_root1 center radius r) (sphere_root2 center radius r) = Some s"
    by (simp_all add: hit_t_Sphere split: if_splits)
  from two_roots_bounds [OF t]
  have s: "s = (- h - q) / a \<or> s = (- h + q) / a"
    by (auto simp: sphere_root1_def sphere_root2_def a_def h_def q_def)
  have qq: "q * q = h * h - a * c"
    using d by (simp add: q_def sphere_disc_def a_def h_def c_def)
  have "0 < e0 (dir r) * e0 (dir r)" using assms(2) by (auto simp: zero_less_mult_iff)
  then have a: "a > 0"
    unfolding a_def by (cases "dir r") (simp add: length_squared_def add_pos_nonneg)
  from root_on_surface [OF a qq s] have eq: "a * s * s + 2 * h * s + c = 0" .
  have "length_squared (ray_at r s - center) - radius * radius = a * s * s + 2 * h * s + c"
    unfolding a_def h_def c_def
    by (cases "origin r"; cases "dir r"; cases center) (simp add: vec_defs algebra_simps)
  with eq show ?thesis by simp
qed

lemma Sphere_encloses_hits:
  assumes rad: "0 < radius"
    and d: "e0 (dir r) \<noteq> 0" "e1 (dir r) \<noteq> 0" "e2 (dir r) \<noteq> 0"
  shows "encloses_hits (Sphere center radius mat_ptr) r t_min time0 time1"
proof -
  let ?b = "\<lparr>minimum = center - Vec3 radius radius radius,
             maximum = center + Vec3 radius radius radius\<rparr>"
  have "Aabb_hit ?b r t_min hi" if "hit_t (Sphere center radius mat_ptr) r t_min hi \<noteq> None" for hi
  proof -
    from that obtain s where hs: "hit_t (Sphere center radius mat_ptr) r t_min hi = Some s"
      by auto
    then have t: "two_roots t_min hi (sphere_root1 center radius r) (sphere_root2 center radius r) = Some s"
      by (simp add: hit_t_Sphere split: if_splits)
    from two_roots_bounds [OF t] have s: "t_min < s" "less_than s hi" by simp_all
    obtain cx cy cz where c: "center = Vec3 cx cy cz" by (cases center)
    obtain ox oy oz where oo: "origin r = Vec3 ox oy oz" by (cases "origin r")
    obtain dx dy dz where dd: "dir r = Vec3 dx dy dz" by (cases "dir r")
    define x where "x = ox + s * dx - cx"
    define y where "y = oy + s * dy - cy"
    define z where "z = oz + s * dz - cz"
    from Sphere_hit_on_surface [OF hs d(1)]
    have "x * x + y * y + z * z = radius * radius"
      by (simp add: c oo dd vec_defs x_def y_def z_def)
    then have "y * y + x * x + z * z = radius * radius" "z * z + x * x + y * y = radius * radius"
      and xx: "x * x + y * y + z * z = radius * radius"
      by simp_all
    from square_sum_bound [OF this(1) rad] square_sum_bound [OF this(2) rad]
      square_sum_bound [OF xx rad]
    have bx: "- radius \<le> x" "x \<le> radius" and by': "- radius \<le> y" "y \<le> radius"
      and bz: "- radius \<le> z" "z \<le> radius"
      by simp_all
    have "axis_pass ?b r t_min hi 0"
      using d(1) rad bx s by (intro axis_pass_point [where s = s]) (simp_all add: c oo dd vec_defs x_def)
    moreover have "axis_pass ?b r t_min hi 1"
      using d(2) rad by' s by (intro axis_pass_point [where s = s]) (simp_all add: c oo dd vec_defs y_def)
    moreover have "axis_pass ?b r t_min hi 2"
      using d(3) rad bz s by (intro axis_pass_point [where s = s]) (simp_all add: c oo dd vec_defs z_def)
    ultimately show ?thesis by (simp add: Aabb_hit_iff)
  qed
  then show ?thesis
    unfolding encloses_hits_def by simp
qed

lemma slice_all [simp]: "slice_of xs 0 (length xs) = xs"
  by (simp add: slice_of_def)

lemma sqrt_81: "sqrt 81 = 9"
  by (rule real_sqrt_unique) simp_all

lemma sqrt_9: "sqrt 9 = 3"
  by (rule real_sqrt_unique) simp_all

lemma scan_example:
  "reported_t (hit (HittableList [Sphere (Vec3 5 10 10) 3 (0::nat), Sphere (Vec3 2 4 4) 3 1,
                       Sphere (Vec3 (- 3) (- 6) (- 6)) 3 2])
         \<lparr>origin = Vec3 0 0 0, dir = Vec3 1 2 2, time = 0\<rparr> (1 / 1000) INFINITY HitRecord_new)
     = Some 1"
  by (simp add: Sphere_hit_def Let_def vec_defs sqrt_81 reported_t_def)

lemma BvhNode_new_empty:
  "BvhNode_new fuel [] 0 0 time0 time1 g = Inl OutOfFuel"
  by (induction fuel arbitrary: g) (simp_all add: random_usize_in_range_def sort_by_def not_le)

subsection \<open>The equivalence\<close>

text \<open>
  Claim C1, in the form that holds.  Take a list of objects that is not empty, a ray and
  an interval, such that every object answers consistently along the ray and has a box
  that encloses its hits (both hold for every sphere of positive radius when no component
  of the direction of the ray is zero: \<open>Sphere_well_behaved\<close> and
  \<open>Sphere_encloses_hits\<close>).  Then \<^verbatim>\<open>BvhNode::new\<close> over the whole list returns a node,
  whatever the random axes, once the fuel is at least the number of objects; and
  \<^verbatim>\<open>hit\<close> on that node reports a hit exactly when \<^verbatim>\<open>HittableList::hit\<close> on the list does,
  with the same \<^verbatim>\<open>rec.t\<close>.
\<close>

theorem BvhNode_hit_equiv:
  assumes ne: "objects \<noteq> []" and fuel: "length objects \<le> fuel"
    and ok: "\<forall>obj \<in> set objects.
               well_behaved obj r t_min \<and> encloses_hits obj r t_min time0 time1"
  shows "\<exists>nd objects' g'.
           BvhNode_new fuel objects 0 (length objects) time0 time1 g = Inr (nd, objects', g')
         \<and> reported_t (hit nd r t_min t_max rec)
             = reported_t (hit (HittableList objects) r t_min t_max rec)"
proof -
  from ne have "0 < length objects" by simp
  from BvhNode_new_over [OF this order_refl, of fuel r t_min time0 time1 g] fuel ok
  obtain nd objects' g' where
    new: "BvhNode_new fuel objects 0 (length objects) time0 time1 g = Inr (nd, objects', g')"
    and over: "bvh_over r t_min nd (set objects)"
    by auto
  from bvh_hit_closest [OF over, of t_max rec]
  have a: "is_closest (set objects) r t_min t_max (reported_t (hit nd r t_min t_max rec))"
    by simp
  from ok have "\<forall>obj \<in> set objects. well_behaved obj r t_min" by simp
  from HittableList_hit_closest [OF this, of t_max rec]
  have b: "is_closest (set objects) r t_min t_max
             (reported_t (hit (HittableList objects) r t_min t_max rec))" .
  from is_closest_unique [OF a b] new show ?thesis by simp
qed

theorem BvhNode_hit_equiv_witness:
  "\<exists>nd objects' g'.
      BvhNode_new 3 [Sphere (Vec3 5 10 10) 3 (0::nat), Sphere (Vec3 2 4 4) 3 1,
                       Sphere (Vec3 (- 3) (- 6) (- 6)) 3 2] 0 3 0 1 (sconst 0)
        = Inr (nd, objects', g')
      \<and> reported_t (hit nd \<lparr>origin = Vec3 0 0 0, dir = Vec3 1 2 2, time = 0\<rparr> (1 / 1000)
                      INFINITY HitRecord_new) = Some 1"
proof -
  let ?objects = "[Sphere (Vec3 5 10 10) 3 (0::nat), Sphere (Vec3 2 4 4) 3 1,
                       Sphere (Vec3 (- 3) (- 6) (- 6)) 3 2]"
  let ?r = "\<lparr>origin = Vec3 0 0 0, dir = Vec3 1 2 2, time = 0\<rparr>"
  have ok: "\<forall>obj \<in> set ?objects.
               well_behaved obj ?r (1 / 1000) \<and> encloses_hits obj ?r (1 / 1000) 0 1"
    by (simp add: Sphere_well_behaved Sphere_encloses_hits)
  have l: "length ?objects = 3" "?objects \<noteq> []" "length ?objects \<le> 3" by simp_all
  from BvhNode_hit_equiv [OF l(2,3) ok, of "sconst 0" INFINITY HitRecord_new]
  show ?thesis unfolding l(1) scan_example .
qed

text \<open>
  Without the two conditions the reports differ.  The sphere of radius \<open>-1\<close> around the
  origin (the chapter on dielectrics uses a negative radius for the inner surface of a
  hollow glass sphere) has the box from \<open>(1, 1, 1)\<close> to \<open>(-1, -1, -1)\<close>, which
  \<^verbatim>\<open>Aabb::hit\<close> rejects for every ray: the scan finds the hit at \<open>t = 2/3\<close>, the node built
  over the same list finds none.  And over the empty list \<^verbatim>\<open>BvhNode::new\<close> calls itself
  on the same empty span again and again, so no amount of fuel gives a node.
\<close>

theorem BvhNode_hit_counterexample:
  "(\<forall>g. \<exists>nd objects' g'.
      BvhNode_new 1 [Sphere (Vec3 0 0 0) (- 1) ()] 0 1 0 1 g = Inr (nd, objects', g')
      \<and> reported_t (hit nd \<lparr>origin = Vec3 (- 1) (- 2) (- 2), dir = Vec3 1 2 2, time = 0\<rparr>
                      (1 / 1000) INFINITY HitRecord_new) = None)
   \<and> reported_t (hit (HittableList [Sphere (Vec3 0 0 0) (- 1) ()])
                   \<lparr>origin = Vec3 (- 1) (- 2) (- 2), dir = Vec3 1 2 2, time = 0\<rparr>
                   (1 / 1000) INFINITY HitRecord_new) = Some (2 / 3)
   \<and> (\<forall>fuel g. BvhNode_new fuel ([] :: unit hittable list) 0 0 0 1 g = Inl OutOfFuel)"
proof (intro conjI allI)
  fix g :: rng
  show "\<exists>nd objects' g'.
      BvhNode_new 1 [Sphere (Vec3 0 0 0) (- 1) ()] 0 1 0 1 g = Inr (nd, objects', g')
      \<and> reported_t (hit nd \<lparr>origin = Vec3 (- 1) (- 2) (- 2), dir = Vec3 1 2 2, time = 0\<rparr>
                      (1 / 1000) INFINITY HitRecord_new) = None"
    by (simp add: random_usize_in_range_def BvhNode_of_def Let_def surrounding_box_def
        vec_defs Aabb_hit_def)
next
  show "reported_t (hit (HittableList [Sphere (Vec3 0 0 0) (- 1) ()])
                   \<lparr>origin = Vec3 (- 1) (- 2) (- 2), dir = Vec3 1 2 2, time = 0\<rparr>
                   (1 / 1000) INFINITY HitRecord_new) = Some (2 / 3)"
    by (simp add: Sphere_hit_def Let_def vec_defs sqrt_9 reported_t_def)
next
  fix fuel and g :: rng
  show "BvhNode_new fuel ([] :: unit hittable list) 0 0 0 1 g = Inl OutOfFuel"
    by (rule BvhNode_new_empty)
qed

end
